theory Spec2Isabelle
  imports Main
begin

section \<open>Python values, dictionaries and strings\<close>

text \<open>
  The workflow and its activities exchange \<open>dict\<close> payloads whose values are
  \<open>None\<close>, strings, integers and booleans. A dictionary is an association list
  (Python dictionaries keep insertion order); a literal of the source is the list of
  its items. Floating-point values are not modelled.
\<close>

datatype val = VNone | VStr string | VInt int | VBool bool

type_synonym dict = "(string \<times> val) list"

text \<open>The nested payload that \<open>send_push_notification\<close> returns.\<close>

datatype jval = Flat val | Nested "(string \<times> jval) list"

type_synonym jdict = "(string \<times> jval) list"

text \<open>
  Errors are values. \<open>KeyError k\<close> is raised by a subscript \<open>d[k]\<close> on a missing key,
  \<open>Exception m\<close> is an exception of class \<open>Exception\<close> with \<open>str(e) = m\<close> raised by a
  collaborator (browser, agent, logger), \<open>ActivityError m\<close> is what
  \<open>workflow.execute_activity\<close> raises into the workflow when the engine gives an
  activity up, \<open>m\<close> being the text of the last failure.
\<close>

datatype error = KeyError string | Exception string | ActivityError string

fun str_error :: "error \<Rightarrow> string" where
  "str_error (KeyError k) = [CHR 0x27] @ k @ [CHR 0x27]"
| "str_error (Exception m) = m"
| "str_error (ActivityError m) = m"

text \<open>Truth value of a Python object, as \<open>not x\<close> and \<open>all([...])\<close> test it.\<close>

fun truthy :: "val \<Rightarrow> bool" where
  "truthy VNone = False"
| "truthy (VStr s) = (s \<noteq> [])"
| "truthy (VInt i) = (i \<noteq> 0)"
| "truthy (VBool b) = b"

text \<open>\<open>d.get(k)\<close>, \<open>d.get(k, dflt)\<close> and \<open>d[k]\<close>.\<close>

definition dict_get :: "dict \<Rightarrow> string \<Rightarrow> val" where
  "dict_get d k = (case map_of d k of None \<Rightarrow> VNone | Some v \<Rightarrow> v)"

definition dict_get_default :: "dict \<Rightarrow> string \<Rightarrow> val \<Rightarrow> val" where
  "dict_get_default d k dflt = (case map_of d k of None \<Rightarrow> dflt | Some v \<Rightarrow> v)"

definition subscript :: "dict \<Rightarrow> string \<Rightarrow> error + val" where
  "subscript d k = (case map_of d k of None \<Rightarrow> Inl (KeyError k) | Some v \<Rightarrow> Inr v)"

text \<open>\<open>str(x)\<close>, as the f-strings of the source apply it.\<close>

definition digit_char :: "nat \<Rightarrow> char" where
  "digit_char n = char_of (48 + n)"

fun str_nat :: "nat \<Rightarrow> string" where
  "str_nat n = (if n < 10 then [digit_char n] else str_nat (n div 10) @ [digit_char (n mod 10)])"

declare str_nat.simps [simp del]

definition str_int :: "int \<Rightarrow> string" where
  "str_int i = (if i < 0 then CHR ''-'' # str_nat (nat (- i)) else str_nat (nat i))"

fun py_str :: "val \<Rightarrow> string" where
  "py_str VNone = ''None''"
| "py_str (VStr s) = s"
| "py_str (VInt i) = str_int i"
| "py_str (VBool b) = (if b then ''True'' else ''False'')"

text \<open>\<open>p in s\<close> on strings, and \<open>s.lower()\<close> (on the ASCII letters).\<close>

fun starts_with :: "string \<Rightarrow> string \<Rightarrow> bool" where
  "starts_with s [] = True"
| "starts_with [] (p # ps) = False"
| "starts_with (c # cs) (p # ps) = (c = p \<and> starts_with cs ps)"

fun contains :: "string \<Rightarrow> string \<Rightarrow> bool" where
  "contains [] p = (p = [])"
| "contains (c # cs) p = (starts_with (c # cs) p \<or> contains cs p)"

definition lower_char :: "char \<Rightarrow> char" where
  "lower_char c = (let n = (of_char c :: nat) in if 65 \<le> n \<and> n \<le> 90 then char_of (n + 32) else c)"

definition lower :: "string \<Rightarrow> string" where
  "lower s = map lower_char s"

section \<open>The browser agent (agent/browser\_agent.py)\<close>

text \<open>
  What the browser and the LLM agent do is the environment of \<open>cancel_subscription\<close>:
  \<^item> \<open>setup_exc\<close>: \<open>Browser(...)\<close> or \<open>Agent(...)\<close> raised, before the \<open>try\<close>;
  \<^item> \<open>run_exc\<close>: \<open>agent.run\<close>, \<open>browser.screenshot\<close> or \<open>result.history()\<close> raised
    inside the \<open>try\<close>, with this \<open>str(e)\<close>;
  \<^item> \<open>close_exc\<close>: \<open>browser.close()\<close> raised in the \<open>finally\<close> block;
  \<^item> \<open>shot_time\<close>, \<open>done_time\<close>: the two readings of \<open>datetime.now().isoformat()\<close>;
  \<^item> \<open>agent_history\<close>: the value of \<open>result.history()\<close>.
\<close>

record agent_env =
  setup_exc :: "string option"
  run_exc :: "string option"
  close_exc :: "string option"
  shot_time :: string
  done_time :: string
  agent_history :: val

definition cancel_subscription ::
  "agent_env \<Rightarrow> val \<Rightarrow> val \<Rightarrow> val \<Rightarrow> val \<Rightarrow> val \<Rightarrow> error + dict" where
  "cancel_subscription env service_name login_url email password use_steel =
     (case setup_exc env of
        Some e \<Rightarrow> Inl (Exception e)
      | None \<Rightarrow>
          (let returned =
                 (case run_exc env of
                    None \<Rightarrow>
                      (let screenshot_path =
                             ''proofs/'' @ py_str service_name @ ''_'' @ shot_time env @ ''.png''
                       in [(''status'', VStr ''SUCCESS''),
                           (''service'', service_name),
                           (''screenshot'', VStr screenshot_path),
                           (''timestamp'', VStr (done_time env)),
                           (''agent_history'', agent_history env)])
                  | Some e \<Rightarrow>
                      (if contains e ''2FA'' \<or> contains (lower e) ''verification''
                       then [(''status'', VStr ''2FA_REQUIRED''),
                             (''service'', service_name),
                             (''message'', VStr ''User needs to provide verification code'')]
                       else [(''status'', VStr ''FAILED''),
                             (''service'', service_name),
                             (''error'', VStr e)]))
           in case close_exc env of
                Some e \<Rightarrow> Inl (Exception e)
              | None \<Rightarrow> Inr returned))"

section \<open>The activities (orchestration/activities)\<close>

text \<open>
  The environment of one run of \<open>start_cancellation\<close>: the agent's behaviour and the
  reading of \<open>datetime.now().timestamp()\<close>, already rendered by \<open>str\<close>.
\<close>

record begin_env =
  agent :: agent_env
  stamp :: string

text \<open>
  The \<open>try\<close> block of \<open>start_cancellation\<close>: \<open>Inl\<close> is an exception leaving the block.
\<close>

definition start_cancellation_body :: "begin_env \<Rightarrow> dict \<Rightarrow> error + dict" where
  "start_cancellation_body env request =
     (let service_name = dict_get request ''service_name'';
          login_url = dict_get request ''login_url'';
          email = dict_get request ''email'';
          password = dict_get request ''password'';
          use_steel = dict_get_default request ''use_steel'' (VBool False)
      in if \<not> (truthy service_name \<and> truthy login_url \<and> truthy email \<and> truthy password)
         then Inr [(''status'', VStr ''FAILED''),
                   (''message'', VStr
                      ''Missing required parameters: service_name, login_url, email, password'')]
         else
           (case cancel_subscription (agent env) service_name login_url email password use_steel of
              Inl e \<Rightarrow> Inl e
            | Inr result \<Rightarrow>
                (let session_id = py_str service_name @ ''_''
                                    @ py_str (dict_get request ''user_id'') @ ''_'' @ stamp env
                 in case subscript result ''status'' of
                      Inl e \<Rightarrow> Inl e
                    | Inr st \<Rightarrow>
                        if st = VStr ''2FA_REQUIRED''
                        then Inr [(''status'', VStr ''2FA_REQUIRED''),
                                  (''session_id'', VStr session_id),
                                  (''message'', dict_get_default result ''message''
                                                  (VStr ''Verification code required'')),
                                  (''service_name'', service_name)]
                        else if st = VStr ''SUCCESS''
                        then Inr [(''status'', VStr ''SUCCESS''),
                                  (''session_id'', VStr session_id),
                                  (''screenshot_path'', dict_get result ''screenshot''),
                                  (''timestamp'', dict_get result ''timestamp''),
                                  (''service_name'', service_name)]
                        else Inr [(''status'', VStr ''FAILED''),
                                  (''message'', dict_get_default result ''error''
                                                  (VStr ''Unknown error occurred'')),
                                  (''service_name'', service_name)])))"

text \<open>The activity itself: the \<open>except Exception\<close> handler around the block.\<close>

definition start_cancellation :: "begin_env \<Rightarrow> dict \<Rightarrow> error + dict" where
  "start_cancellation env request =
     (case start_cancellation_body env request of
        Inl e \<Rightarrow> Inr [(''status'', VStr ''FAILED''),
                      (''message'', VStr (''Exception occurred: '' @ str_error e)),
                      (''service_name'', dict_get request ''service_name'')]
      | Inr d \<Rightarrow> Inr d)"

text \<open>
  The other three activities are placeholders: their \<open>try\<close> blocks read the request,
  log, sleep and read the clock. Their environment says whether a statement executed
  inside the \<open>try\<close> raised (\<open>raised = Some (str e)\<close>), and what the clock shows.
\<close>

record act_env =
  raised :: "string option"
  clock :: string

definition inject_2fa_code :: "act_env \<Rightarrow> dict \<Rightarrow> error + dict" where
  "inject_2fa_code env request =
     (case raised env of
        Some e \<Rightarrow> Inr [(''status'', VStr ''FAILED''),
                       (''message'', VStr (''Failed to inject 2FA code: '' @ e))]
      | None \<Rightarrow>
          (let session_id = dict_get request ''session_id'';
               code = dict_get request ''code''
           in if \<not> truthy session_id \<or> \<not> truthy code
              then Inr [(''status'', VStr ''FAILED''),
                        (''message'', VStr ''Missing required parameters: session_id, code'')]
              else Inr [(''status'', VStr ''SUCCESS''),
                        (''session_id'', session_id),
                        (''message'', VStr ''2FA code verified and cancellation continued'')]))"

definition capture_proof :: "act_env \<Rightarrow> dict \<Rightarrow> error + dict" where
  "capture_proof env request =
     (case raised env of
        Some e \<Rightarrow> Inr [(''screenshot_url'', VNone),
                       (''video_url'', VNone),
                       (''message'', VStr (''Failed to capture proof: '' @ e))]
      | None \<Rightarrow>
          (let session_id = dict_get request ''session_id''
           in if \<not> truthy session_id
              then Inr [(''screenshot_url'', VNone),
                        (''message'', VStr ''Missing session_id'')]
              else
                (let timestamp = clock env;
                     screenshot_url = ''https://storage.supabase.co/proof/''
                                        @ py_str session_id @ ''/screenshot.png'';
                     video_url = ''https://steel.dev/sessions/''
                                   @ py_str session_id @ ''/recording.mp4''
                 in Inr [(''screenshot_url'', VStr screenshot_url),
                         (''video_url'', VStr video_url),
                         (''timestamp'', VStr timestamp),
                         (''session_id'', session_id)])))"

definition send_push_notification :: "act_env \<Rightarrow> dict \<Rightarrow> error + jdict" where
  "send_push_notification env request =
     (case raised env of
        Some e \<Rightarrow> Inr [(''status'', Flat (VStr ''FAILED'')),
                       (''delivery_status'', Flat (VStr (''Failed to send notification: '' @ e))),
                       (''timestamp'', Flat (VStr (clock env)))]
      | None \<Rightarrow>
          (let user_id = dict_get request ''user_id'';
               title = dict_get request ''title'';
               body = dict_get request ''body'';
               data = (case map_of request ''data'' of None \<Rightarrow> Nested [] | Some v \<Rightarrow> Flat v)
           in if \<not> (truthy user_id \<and> truthy title \<and> truthy body)
              then Inr [(''status'', Flat (VStr ''FAILED'')),
                        (''delivery_status'', Flat (VStr
                           ''Missing required parameters: user_id, title, body'')),
                        (''timestamp'', Flat (VStr (clock env)))]
              else Inr [(''status'', Flat (VStr ''SUCCESS'')),
                        (''delivery_status'', Flat (VStr ''Notification sent to all user devices'')),
                        (''timestamp'', Flat (VStr (clock env))),
                        (''user_id'', Flat user_id),
                        (''notification'', Nested [(''title'', Flat title),
                                                   (''body'', Flat body),
                                                   (''data'', data)])]))"

section \<open>The engine's activity invoker\<close>

text \<open>
  \<open>workflow.execute_activity\<close> belongs to the workflow engine. One attempt at an activity
  either fails in the engine (\<open>Fault m\<close>: the \<open>start_to_close_timeout\<close> elapsed, the worker
  was lost) or runs the activity function in some environment (\<open>Ran env\<close>); an activity
  function that raises fails its attempt as well.
\<close>

datatype 'a attempt = Fault string | Ran 'a

definition attempt_outcome :: "'a attempt \<Rightarrow> ('a \<Rightarrow> error + 'r) \<Rightarrow> string + 'r" where
  "attempt_outcome a act =
     (case a of
        Fault m \<Rightarrow> Inl m
      | Ran env \<Rightarrow> (case act env of Inl e \<Rightarrow> Inl (str_error e) | Inr r \<Rightarrow> Inr r))"

text \<open>
  The retry policy as the workflow builds it (intervals in seconds). The source does not
  set the backoff coefficient; the engine's default is 2.
\<close>

record RetryPolicy =
  initial_interval :: nat
  maximum_interval :: nat
  maximum_attempts :: nat

definition backoff_coefficient :: nat where
  "backoff_coefficient = 2"

text \<open>The delay the engine waits after the \<open>k\<close>-th attempt (\<open>k \<ge> 1\<close>) has failed.\<close>

definition retry_delay :: "RetryPolicy \<Rightarrow> nat \<Rightarrow> nat" where
  "retry_delay p k =
     min (initial_interval p * backoff_coefficient ^ (k - 1)) (maximum_interval p)"

text \<open>
  The engine's record of one failed attempt: its number, the failure, and the delay
  waited before the next attempt (\<open>None\<close> when the engine gives up).
\<close>

type_synonym attempt_log = "(nat \<times> string \<times> nat option) list"

text \<open>
  \<open>retrying p left k\<close> makes attempt number \<open>k\<close> with \<open>left\<close> further attempts allowed.
  The first attempt that returns gives the result; when none is left the engine raises
  \<open>ActivityError\<close> with the last failure.
\<close>

fun retrying ::
  "RetryPolicy \<Rightarrow> nat \<Rightarrow> nat \<Rightarrow> (nat \<Rightarrow> 'a attempt) \<Rightarrow> ('a \<Rightarrow> error + 'r)
     \<Rightarrow> (error + 'r) \<times> attempt_log" where
  "retrying p 0 k env act =
     (case attempt_outcome (env k) act of
        Inr r \<Rightarrow> (Inr r, [])
      | Inl m \<Rightarrow> (Inl (ActivityError m), [(k, m, None)]))"
| "retrying p (Suc left) k env act =
     (case attempt_outcome (env k) act of
        Inr r \<Rightarrow> (Inr r, [])
      | Inl m \<Rightarrow>
          (let rest = retrying p left (Suc k) env act
           in (fst rest, (k, m, Some (retry_delay p k)) # snd rest)))"

text \<open>\<open>execute_activity\<close> under a policy with \<open>maximum_attempts \<ge> 1\<close> (the source passes 3).\<close>

definition execute_activity ::
  "RetryPolicy \<Rightarrow> (nat \<Rightarrow> 'a attempt) \<Rightarrow> ('a \<Rightarrow> error + 'r) \<Rightarrow> (error + 'r) \<times> attempt_log" where
  "execute_activity p env act = retrying p (maximum_attempts p - 1) 1 env act"

text \<open>
  \<open>execute_activity\<close> where the source passes no retry policy: how often the engine
  retries is then not fixed by the source, and the environment gives the end of the whole
  invocation: \<open>Fault m\<close> when the engine gave the activity up, \<open>Ran env\<close> for the
  attempt whose result it delivers.
\<close>

definition invoke :: "'a attempt \<Rightarrow> ('a \<Rightarrow> error + 'r) \<Rightarrow> error + 'r" where
  "invoke a act =
     (case attempt_outcome a act of
        Inl m \<Rightarrow> Inl (ActivityError m)
      | Inr r \<Rightarrow> Inr r)"

section \<open>The workflow (orchestration/workflows/cancellation\_workflow.py)\<close>

record workflow =
  two_fa_code :: "string option"
  status :: string

text \<open>\<open>__init__\<close>, the signal handler and the query.\<close>

definition init :: workflow where
  "init = \<lparr>two_fa_code = None, status = ''PENDING''\<rparr>"

definition provide_2fa_code :: "string \<Rightarrow> workflow \<Rightarrow> workflow" where
  "provide_2fa_code code self = self\<lparr>two_fa_code := Some code\<rparr>"

definition get_status :: "workflow \<Rightarrow> string" where
  "get_status self = status self"

text \<open>
  The world of one run: for each \<open>await\<close>, what the awaited operation does and which
  2FA codes are signalled while the run is suspended there (signal handlers run only at
  an \<open>await\<close>).
  \<^item> \<open>begin_attempts k\<close>: the \<open>k\<close>-th attempt at \<open>start_cancellation\<close>;
  \<^item> \<open>notify_end\<close>, \<open>inject_end\<close>, \<open>capture_end\<close>: the end of the other invocations;
  \<^item> \<open>sig_begin\<close>, \<open>sig_notify\<close>, \<open>sig_inject\<close>, \<open>sig_capture\<close>: the codes signalled
    during the activity of that name, in order;
  \<^item> \<open>sig_wait\<close>: the codes signalled during \<open>wait_condition\<close> before its 10-minute
    timeout; \<open>[]\<close> when none arrives in time;
  \<^item> \<open>now_iso\<close>: \<open>workflow.now().isoformat()\<close>.
\<close>

record world =
  begin_attempts :: "nat \<Rightarrow> begin_env attempt"
  sig_begin :: "string list"
  notify_end :: "act_env attempt"
  sig_notify :: "string list"
  sig_wait :: "string list"
  inject_end :: "act_env attempt"
  sig_inject :: "string list"
  capture_end :: "act_env attempt"
  sig_capture :: "string list"
  now_iso :: string

text \<open>
  The state of a run: the workflow object, and three observations of the run that the
  source does not store: \<open>trace\<close>, every value \<open>status\<close> has held, in order; \<open>invoked\<close>,
  the activities started, with their payloads, in order; and \<open>writes\<close>, every value the
  workflow object has held, in order: one entry for the object the run starts with and
  one for each assignment to \<open>self.status\<close> or \<open>self.two_fa_code\<close>.
\<close>

record run_state =
  wf :: workflow
  trace :: "string list"
  invoked :: "(string \<times> dict) list"
  writes :: "workflow list"

definition set_status :: "string \<Rightarrow> run_state \<Rightarrow> run_state" where
  "set_status x s =
     s\<lparr>wf := (wf s)\<lparr>status := x\<rparr>,
       trace := trace s @ [x],
       writes := writes s @ [(wf s)\<lparr>status := x\<rparr>]\<rparr>"

definition started :: "string \<Rightarrow> dict \<Rightarrow> run_state \<Rightarrow> run_state" where
  "started name payload s = s\<lparr>invoked := invoked s @ [(name, payload)]\<rparr>"

text \<open>The objects that the signal handler leaves, one per code signalled.\<close>

fun deliveries :: "workflow \<Rightarrow> string list \<Rightarrow> workflow list" where
  "deliveries self [] = []"
| "deliveries self (code # codes) =
     provide_2fa_code code self # deliveries (provide_2fa_code code self) codes"

definition deliver :: "string list \<Rightarrow> run_state \<Rightarrow> run_state" where
  "deliver codes s =
     s\<lparr>wf := foldl (\<lambda>self code. provide_2fa_code code self) (wf s) codes,
       writes := writes s @ deliveries (wf s) codes\<rparr>"

text \<open>
  \<open>workflow.wait_condition(lambda: self.two_fa_code is not None, timeout=10 minutes)\<close>:
  \<open>None\<close> is the \<open>TimeoutError\<close>.
\<close>

definition wait_condition :: "world \<Rightarrow> run_state \<Rightarrow> run_state option" where
  "wait_condition w s =
     (if two_fa_code (wf s) \<noteq> None then Some s
      else (case sig_wait w of [] \<Rightarrow> None | c # cs \<Rightarrow> Some (deliver (c # cs) s)))"

definition code_val :: "string option \<Rightarrow> val" where
  "code_val c = (case c of None \<Rightarrow> VNone | Some x \<Rightarrow> VStr x)"

text \<open>Step 4 of \<open>run\<close>: capture proof and finalize, or fail with the last result.\<close>

definition step4 :: "world \<Rightarrow> dict \<Rightarrow> run_state \<Rightarrow> dict \<Rightarrow> run_state \<times> (error + dict)" where
  "step4 w request s result =
     (case subscript result ''status'' of
        Inl e \<Rightarrow> (s, Inl e)
      | Inr st \<Rightarrow>
          if st = VStr ''SUCCESS''
          then
            (let s1 = set_status ''CAPTURING_PROOF'' s
             in case subscript result ''session_id'' of
                  Inl e \<Rightarrow> (s1, Inl e)
                | Inr sid \<Rightarrow>
                    (let payload = [(''session_id'', sid)];
                         s2 = deliver (sig_capture w) (started ''capture_proof'' payload s1)
                     in case invoke (capture_end w) (\<lambda>env. capture_proof env payload) of
                          Inl e \<Rightarrow> (s2, Inl e)
                        | Inr proof \<Rightarrow>
                            (let s3 = set_status ''COMPLETED'' s2
                             in case subscript proof ''screenshot_url'' of
                                  Inl e \<Rightarrow> (s3, Inl e)
                                | Inr url \<Rightarrow>
                                    (s3, Inr [(''status'', VStr ''SUCCESS''),
                                              (''screenshot_url'', url),
                                              (''video_url'', dict_get proof ''video_url''),
                                              (''savings_per_year'',
                                                 dict_get_default request ''annual_cost'' (VInt 0)),
                                              (''cancelled_at'', VStr (now_iso w))]))))
          else (set_status ''FAILED'' s, Inr result))"

text \<open>Step 3 of \<open>run\<close>: inject the 2FA code and continue.\<close>

definition step3 :: "world \<Rightarrow> dict \<Rightarrow> run_state \<Rightarrow> dict \<Rightarrow> run_state \<times> (error + dict)" where
  "step3 w request s result =
     (let s1 = set_status ''VERIFYING_2FA'' s
      in case subscript result ''session_id'' of
           Inl e \<Rightarrow> (s1, Inl e)
         | Inr sid \<Rightarrow>
             (let payload = [(''session_id'', sid),
                             (''code'', code_val (two_fa_code (wf s1)))];
                  s2 = deliver (sig_inject w) (started ''inject_2fa_code'' payload s1)
              in case invoke (inject_end w) (\<lambda>env. inject_2fa_code env payload) of
                   Inl e \<Rightarrow> (s2, Inl e)
                 | Inr result2 \<Rightarrow> step4 w request s2 result2))"

text \<open>Step 2 of \<open>run\<close>: notify the user and wait for the 2FA code.\<close>

definition step2 :: "world \<Rightarrow> dict \<Rightarrow> run_state \<Rightarrow> dict \<Rightarrow> run_state \<times> (error + dict)" where
  "step2 w request s result =
     (let s1 = set_status ''AWAITING_2FA'' s
      in case subscript request ''user_id'' of
           Inl e \<Rightarrow> (s1, Inl e)
         | Inr user_id \<Rightarrow>
             (case subscript request ''service_name'' of
                Inl e \<Rightarrow> (s1, Inl e)
              | Inr service_name \<Rightarrow>
                  (let payload =
                         [(''user_id'', user_id),
                          (''title'', VStr (py_str service_name @ '' needs verification'')),
                          (''body'', VStr
                             ''Enter the code from your SMS/email to continue cancellation'')];
                       s2 = deliver (sig_notify w) (started ''send_push_notification'' payload s1)
                   in case invoke (notify_end w) (\<lambda>env. send_push_notification env payload) of
                        Inl e \<Rightarrow> (s2, Inl e)
                      | Inr _ \<Rightarrow>
                          (case wait_condition w s2 of
                             None \<Rightarrow>
                               (set_status ''TIMEOUT'' s2,
                                Inr [(''status'', VStr ''FAILED''),
                                     (''reason'', VStr ''2FA code not provided in time'')])
                           | Some s3 \<Rightarrow> step3 w request s3 result))))"

text \<open>
  \<open>run\<close>: the final run state, and what the coroutine does: \<open>Inr d\<close> when it returns
  \<open>d\<close>, \<open>Inl e\<close> when \<open>e\<close> leaves it unhandled.
\<close>

definition run :: "world \<Rightarrow> dict \<Rightarrow> workflow \<Rightarrow> run_state \<times> (error + dict)" where
  "run w request self =
     (let s0 = \<lparr>wf = self, trace = [status self], invoked = [], writes = [self]\<rparr>;
          s1 = set_status ''STARTING'' s0;
          retry_policy = \<lparr>initial_interval = 1, maximum_interval = 300, maximum_attempts = 3\<rparr>;
          s2 = set_status ''NAVIGATING'' s1;
          s3 = deliver (sig_begin w) (started ''start_cancellation'' request s2)
      in case fst (execute_activity retry_policy (begin_attempts w)
                     (\<lambda>env. start_cancellation env request)) of
           Inl e \<Rightarrow> (s3, Inl e)
         | Inr result \<Rightarrow>
             (case subscript result ''status'' of
                Inl e \<Rightarrow> (s3, Inl e)
              | Inr st \<Rightarrow>
                  if st = VStr ''2FA_REQUIRED''
                  then step2 w request s3 result
                  else step4 w request s3 result))"

text \<open>What the first \<open>execute_activity\<close> of \<open>run\<close> gives the workflow.\<close>

definition begin_outcome :: "world \<Rightarrow> dict \<Rightarrow> error + dict" where
  "begin_outcome w request =
     fst (execute_activity
            \<lparr>initial_interval = 1, maximum_interval = 300, maximum_attempts = 3\<rparr>
            (begin_attempts w) (\<lambda>env. start_cancellation env request))"

text \<open>The run state when that first \<open>execute_activity\<close> has ended.\<close>

definition entered :: "world \<Rightarrow> dict \<Rightarrow> workflow \<Rightarrow> run_state" where
  "entered w request self =
     deliver (sig_begin w)
       (started ''start_cancellation'' request
          (set_status ''NAVIGATING''
             (set_status ''STARTING''
                \<lparr>wf = self, trace = [status self], invoked = [], writes = [self]\<rparr>)))"

text \<open>A field of the dictionary a run returned; \<open>None\<close> when there is none.\<close>

definition result_field :: "error + dict \<Rightarrow> string \<Rightarrow> val" where
  "result_field r k = (case r of Inl e \<Rightarrow> VNone | Inr d \<Rightarrow> dict_get d k)"

text \<open>
  \<open>observed s s' t i\<close>: from run state \<open>s\<close> to \<open>s'\<close> the status took the values \<open>t\<close>, the
  activities named \<open>i\<close> were started, and a pending code was not lost.
\<close>

definition observed :: "run_state \<Rightarrow> run_state \<Rightarrow> string list \<Rightarrow> string list \<Rightarrow> bool" where
  "observed s s' t i =
     (trace s' = trace s @ t
      \<and> map fst (invoked s') = map fst (invoked s) @ i
      \<and> status (wf s') = last (status (wf s) # t)
      \<and> (two_fa_code (wf s) = None \<or> two_fa_code (wf s') \<noteq> None))"

section \<open>The transition graph of the specification\<close>

text \<open>
  The edges as the specification lists them:
  \<open>PENDING \<rightarrow> STARTING \<rightarrow> NAVIGATING \<rightarrow> (AWAITING_2FA \<rightarrow> VERIFYING_2FA)? \<rightarrow> CAPTURING_PROOF
  \<rightarrow> COMPLETED\<close>, \<open>* \<rightarrow> FAILED\<close> and \<open>AWAITING_2FA \<rightarrow> TIMEOUT\<close>.
\<close>

definition terminal :: "string \<Rightarrow> bool" where
  "terminal x = (x = ''COMPLETED'' \<or> x = ''FAILED'' \<or> x = ''TIMEOUT'')"





section \<open>The scenarios of the specification as worlds\<close>

definition request_netflix :: dict where
  "request_netflix =
     [(''user_id'', VStr ''123''),
      (''service_name'', VStr ''Netflix''),
      (''login_url'', VStr ''https://netflix.com/login''),
      (''email'', VStr ''user@example.com''),
      (''password'', VStr ''hunter2''),
      (''annual_cost'', VInt 180)]"

text \<open>An agent whose \<open>try\<close> block ends as given, and a placeholder body that ends as given.\<close>

definition agent_with :: "string option \<Rightarrow> begin_env" where
  "agent_with e =
     \<lparr>agent = \<lparr>setup_exc = None, run_exc = e, close_exc = None,
                shot_time = ''2026-01-05T10:00:00'', done_time = ''2026-01-05T10:00:01'',
                agent_history = VNone\<rparr>,
      stamp = ''1767607200.5''\<rparr>"

definition body_with :: "string option \<Rightarrow> act_env" where
  "body_with e = \<lparr>raised = e, clock = ''2026-01-05T10:00:02''\<rparr>"

text \<open>An agent whose browser fails to close after a successful run.\<close>

definition agent_crashing :: begin_env where
  "agent_crashing =
     (agent_with None)\<lparr>agent := (agent (agent_with None))\<lparr>close_exc := Some ''browser lost''\<rparr>\<rparr>"

text \<open>
  \<open>scenario e codes\<close>: the agent ends with \<open>e\<close> on the first attempt, \<open>codes\<close> are
  signalled during the wait, every other collaborator works.
\<close>

definition scenario :: "string option \<Rightarrow> string list \<Rightarrow> world" where
  "scenario e codes =
     \<lparr>begin_attempts = (\<lambda>k. Ran (agent_with e)),
      sig_begin = [],
      notify_end = Ran (body_with None),
      sig_notify = [],
      sig_wait = codes,
      inject_end = Ran (body_with None),
      sig_inject = [],
      capture_end = Ran (body_with None),
      sig_capture = [],
      now_iso = ''2026-01-05T10:00:03''\<rparr>"

definition scenario_A :: world where
  "scenario_A = scenario None []"

definition scenario_B :: world where
  "scenario_B = scenario (Some ''2FA challenge shown'') [''482913'']"

definition scenario_C :: world where
  "scenario_C = scenario (Some ''2FA challenge shown'') []"

definition scenario_D :: world where
  "scenario_D = (scenario None [])\<lparr>begin_attempts := (\<lambda>k. Fault ''activity timed out'')\<rparr>"

definition scenario_E :: world where
  "scenario_E = scenario_B\<lparr>capture_end := Ran (body_with (Some ''upload failed''))\<rparr>"

text \<open>The code is signalled while \<open>start_cancellation\<close> runs, none during the wait.\<close>

definition scenario_early :: world where
  "scenario_early = scenario_C\<lparr>sig_begin := [''482913'']\<rparr>"

text \<open>The code arrives, and a statement inside \<open>inject_2fa_code\<close> raises.\<close>

definition scenario_rejected :: world where
  "scenario_rejected = scenario_B\<lparr>inject_end := Ran (body_with (Some ''browser session lost''))\<rparr>"

text \<open>Direct success, and the proof capture fails inside its body.\<close>

definition scenario_unproven :: world where
  "scenario_unproven = scenario_A\<lparr>capture_end := Ran (body_with (Some ''upload failed''))\<rparr>"

text \<open>
  The engine gives the notification up (as when the workflow is cancelled while the
  activity is pending); the code is signalled while the run would wait.
\<close>

definition scenario_silent :: world where
  "scenario_silent = scenario_B\<lparr>notify_end := Fault ''notification cancelled''\<rparr>"

text \<open>The notification fails inside its body, and the code arrives during the wait.\<close>

definition scenario_unnotified_B :: world where
  "scenario_unnotified_B = scenario_B\<lparr>notify_end := Ran (body_with (Some ''FCM unreachable''))\<rparr>"

text \<open>The notification fails inside its body; no code arrives.\<close>

definition scenario_unnotified :: world where
  "scenario_unnotified = scenario_C\<lparr>notify_end := Ran (body_with (Some ''FCM unreachable''))\<rparr>"

section \<open>Facts about the run state\<close>

lemma status_deliveries:
  "status (foldl (\<lambda>self code. provide_2fa_code code self) self codes) = status self"
  by (induction codes arbitrary: self) (simp_all add: provide_2fa_code_def)

lemma code_deliveries:
  "two_fa_code (foldl (\<lambda>self code. provide_2fa_code code self) self codes) =
     (if codes = [] then two_fa_code self else Some (last codes))"
  by (induction codes arbitrary: self) (simp_all add: provide_2fa_code_def)

lemma set_status_fields [simp]:
  "status (wf (set_status x s)) = x"
  "two_fa_code (wf (set_status x s)) = two_fa_code (wf s)"
  "trace (set_status x s) = trace s @ [x]"
  "invoked (set_status x s) = invoked s"
  by (simp_all add: set_status_def)

lemma started_fields [simp]:
  "wf (started n p s) = wf s"
  "trace (started n p s) = trace s"
  "invoked (started n p s) = invoked s @ [(n, p)]"
  by (simp_all add: started_def)

lemma deliver_fields [simp]:
  "status (wf (deliver cs s)) = status (wf s)"
  "two_fa_code (wf (deliver cs s)) = (if cs = [] then two_fa_code (wf s) else Some (last cs))"
  "trace (deliver cs s) = trace s"
  "invoked (deliver cs s) = invoked s"
  by (simp_all add: deliver_def status_deliveries code_deliveries)

lemma deliver_nothing [simp]: "deliver [] s = s"
  by (simp add: deliver_def)

lemma wait_condition_Some:
  "wait_condition w s = Some s' \<Longrightarrow>
     trace s' = trace s \<and> invoked s' = invoked s \<and> status (wf s') = status (wf s)
       \<and> two_fa_code (wf s') \<noteq> None"
  by (auto simp: wait_condition_def split: if_splits list.splits)

lemma wait_condition_arrives:
  "two_fa_code (wf s) = None \<Longrightarrow> sig_wait w \<noteq> [] \<Longrightarrow>
   wait_condition w s = Some (deliver (sig_wait w) s)"
  by (cases "sig_wait w") (simp_all add: wait_condition_def)

section \<open>Facts about the activities and the engine\<close>

lemma start_cancellation_total: "\<exists>d. start_cancellation env request = Inr d"
  by (simp add: start_cancellation_def split: sum.splits)

lemma subscript_of_get: "dict_get d k = VStr x \<Longrightarrow> subscript d k = Inr (VStr x)"
  by (auto simp: dict_get_def subscript_def split: option.splits)

lemma start_cancellation_shape:
  assumes "start_cancellation env request = Inr d"
  shows "(\<exists>sid m sn. sid \<noteq> [] \<and> d = [(''status'', VStr ''2FA_REQUIRED''), (''session_id'', VStr sid), (''message'', m), (''service_name'', sn)] \<and> truthy sn \<and> sn = dict_get request ''service_name'')
       \<or> (\<exists>sid p t sn. sid \<noteq> [] \<and> d = [(''status'', VStr ''SUCCESS''), (''session_id'', VStr sid), (''screenshot_path'', p), (''timestamp'', t), (''service_name'', sn)])
       \<or> (\<exists>m. d = [(''status'', VStr ''FAILED''), (''message'', m)])
       \<or> (\<exists>m sn. d = [(''status'', VStr ''FAILED''), (''message'', m), (''service_name'', sn)])"
  using assms
  by (auto simp: start_cancellation_def start_cancellation_body_def Let_def split: sum.splits if_splits)

lemma cancel_subscription_2fa:
  "setup_exc a = None \<Longrightarrow> close_exc a = None \<Longrightarrow> run_exc a = Some m \<Longrightarrow>
   contains m ''2FA'' \<or> contains (lower m) ''verification'' \<Longrightarrow>
   cancel_subscription a sn lu em pw us =
     Inr [(''status'', VStr ''2FA_REQUIRED''), (''service'', sn),
          (''message'', VStr ''User needs to provide verification code'')]"
  by (simp add: cancel_subscription_def)

lemma send_push_notification_total: "\<exists>r. send_push_notification env payload = Inr r"
  by (simp add: send_push_notification_def Let_def split: option.splits)

lemma invoke_notification: "\<exists>r. invoke (Ran nenv) (\<lambda>env. send_push_notification env payload) = Inr r"
  using send_push_notification_total [of nenv payload]
  by (auto simp: invoke_def attempt_outcome_def)

lemma retrying_Inr:
  "fst (retrying p n k envs act) = Inr r \<Longrightarrow> \<exists>j a. envs j = Ran a \<and> act a = Inr r"
proof (induction n arbitrary: k)
  case 0
  then show ?case
    by (auto simp: attempt_outcome_def split: sum.splits attempt.splits)
next
  case (Suc n)
  then show ?case
    by (auto simp: attempt_outcome_def Let_def split: sum.splits attempt.splits)
qed

lemma retrying_first:
  "attempt_outcome (envs k) act = Inr r \<Longrightarrow> retrying p n k envs act = (Inr r, [])"
  by (cases n) simp_all

section \<open>What a run can be observed to do\<close>

lemma observed_trans: "observed s s' t i \<Longrightarrow> observed s' s'' t' i' \<Longrightarrow> observed s s'' (t @ t') (i @ i')"
  by (auto simp: observed_def)

lemma step4_obs:
  "observed s (fst (step4 w request s result)) [] []
   \<or> observed s (fst (step4 w request s result)) [''CAPTURING_PROOF''] []
   \<or> observed s (fst (step4 w request s result)) [''CAPTURING_PROOF''] [''capture_proof'']
   \<or> observed s (fst (step4 w request s result)) [''CAPTURING_PROOF'', ''COMPLETED''] [''capture_proof'']
   \<or> observed s (fst (step4 w request s result)) [''FAILED''] []"
  by (auto simp: step4_def Let_def observed_def split: sum.splits)

lemma step3_obs:
  "observed s (fst (step3 w request s result)) [''VERIFYING_2FA''] []
   \<or> observed s (fst (step3 w request s result)) [''VERIFYING_2FA''] [''inject_2fa_code'']
   \<or> observed s (fst (step3 w request s result)) [''VERIFYING_2FA'', ''CAPTURING_PROOF''] [''inject_2fa_code'']
   \<or> observed s (fst (step3 w request s result)) [''VERIFYING_2FA'', ''CAPTURING_PROOF'']
        [''inject_2fa_code'', ''capture_proof'']
   \<or> observed s (fst (step3 w request s result)) [''VERIFYING_2FA'', ''CAPTURING_PROOF'', ''COMPLETED'']
        [''inject_2fa_code'', ''capture_proof'']
   \<or> observed s (fst (step3 w request s result)) [''VERIFYING_2FA'', ''FAILED''] [''inject_2fa_code'']"
proof (cases "subscript result ''session_id''")
  case (Inl e)
  then show ?thesis by (auto simp: step3_def observed_def)
next
  case (Inr sid)
  define payload where "payload = [(''session_id'', sid), (''code'', code_val (two_fa_code (wf s)))]"
  define s2 where "s2 = deliver (sig_inject w) (started ''inject_2fa_code'' payload (set_status ''VERIFYING_2FA'' s))"
  have first: "observed s s2 [''VERIFYING_2FA''] [''inject_2fa_code'']"
    by (auto simp: observed_def s2_def)
  show ?thesis
  proof (cases "invoke (inject_end w) (\<lambda>env. inject_2fa_code env payload)")
    case (Inl e)
    then have "fst (step3 w request s result) = s2"
      using Inr by (simp add: step3_def payload_def s2_def)
    then show ?thesis using first by simp
  next
    case (Inr result2)
    have eq: "step3 w request s result = step4 w request s2 result2"
      using \<open>subscript result ''session_id'' = Inr sid\<close> Inr
      by (simp add: step3_def payload_def s2_def)
    show ?thesis
      unfolding eq using step4_obs [of s2 w request result2]
      by (auto dest!: observed_trans [OF first])
  qed
qed

lemma step2_obs:
  "observed s (fst (step2 w request s result)) [''AWAITING_2FA''] []
   \<or> observed s (fst (step2 w request s result)) [''AWAITING_2FA''] [''send_push_notification'']
   \<or> observed s (fst (step2 w request s result)) [''AWAITING_2FA'', ''TIMEOUT''] [''send_push_notification'']
   \<or> observed s (fst (step2 w request s result)) [''AWAITING_2FA'', ''VERIFYING_2FA''] [''send_push_notification'']
   \<or> observed s (fst (step2 w request s result)) [''AWAITING_2FA'', ''VERIFYING_2FA'']
        [''send_push_notification'', ''inject_2fa_code'']
   \<or> observed s (fst (step2 w request s result)) [''AWAITING_2FA'', ''VERIFYING_2FA'', ''CAPTURING_PROOF'']
        [''send_push_notification'', ''inject_2fa_code'']
   \<or> observed s (fst (step2 w request s result)) [''AWAITING_2FA'', ''VERIFYING_2FA'', ''CAPTURING_PROOF'']
        [''send_push_notification'', ''inject_2fa_code'', ''capture_proof'']
   \<or> observed s (fst (step2 w request s result))
        [''AWAITING_2FA'', ''VERIFYING_2FA'', ''CAPTURING_PROOF'', ''COMPLETED'']
        [''send_push_notification'', ''inject_2fa_code'', ''capture_proof'']
   \<or> observed s (fst (step2 w request s result)) [''AWAITING_2FA'', ''VERIFYING_2FA'', ''FAILED'']
        [''send_push_notification'', ''inject_2fa_code'']"
proof (cases "subscript request ''user_id''")
  case (Inl e)
  then show ?thesis by (auto simp: step2_def observed_def)
next
  case uid: (Inr user_id)
  show ?thesis
  proof (cases "subscript request ''service_name''")
    case (Inl e)
    then show ?thesis using uid by (auto simp: step2_def observed_def)
  next
    case sn: (Inr service_name)
    define payload where "payload =
       [(''user_id'', user_id),
        (''title'', VStr (py_str service_name @ '' needs verification'')),
        (''body'', VStr ''Enter the code from your SMS/email to continue cancellation'')]"
    define s2 where "s2 = deliver (sig_notify w)
       (started ''send_push_notification'' payload (set_status ''AWAITING_2FA'' s))"
    have first: "observed s s2 [''AWAITING_2FA''] [''send_push_notification'']"
      by (auto simp: observed_def s2_def)
    show ?thesis
    proof (cases "invoke (notify_end w) (\<lambda>env. send_push_notification env payload)")
      case (Inl e)
      then have "fst (step2 w request s result) = s2"
        using uid sn by (simp add: step2_def payload_def s2_def)
      then show ?thesis using first by simp
    next
      case sent: (Inr r)
      show ?thesis
      proof (cases "wait_condition w s2")
        case None
        then have "fst (step2 w request s result) = set_status ''TIMEOUT'' s2"
          using uid sn sent by (simp add: step2_def payload_def s2_def)
        moreover have "observed s2 (set_status ''TIMEOUT'' s2) [''TIMEOUT''] []"
          by (auto simp: observed_def)
        ultimately show ?thesis using observed_trans [OF first] by fastforce
      next
        case (Some s3)
        then have eq: "step2 w request s result = step3 w request s3 result"
          using uid sn sent by (simp add: step2_def payload_def s2_def)
        have "observed s2 s3 [] []"
          using wait_condition_Some [OF Some] by (auto simp: observed_def)
        from observed_trans [OF first this]
        have first': "observed s s3 [''AWAITING_2FA''] [''send_push_notification'']" by simp
        show ?thesis
          unfolding eq using step3_obs [of s3 w request result]
          by (auto dest!: observed_trans [OF first'])
      qed
    qed
  qed
qed

lemma run_unfold:
  "run w request self =
     (case begin_outcome w request of
        Inl e \<Rightarrow> (entered w request self, Inl e)
      | Inr result \<Rightarrow>
          (case subscript result ''status'' of
             Inl e \<Rightarrow> (entered w request self, Inl e)
           | Inr st \<Rightarrow>
               if st = VStr ''2FA_REQUIRED''
               then step2 w request (entered w request self) result
               else step4 w request (entered w request self) result))"
  unfolding run_def begin_outcome_def entered_def Let_def by (rule refl)

lemma entered_fields [simp]:
  "trace (entered w request self) = [status self, ''STARTING'', ''NAVIGATING'']"
  "invoked (entered w request self) = [(''start_cancellation'', request)]"
  "status (wf (entered w request self)) = ''NAVIGATING''"
  "two_fa_code (wf (entered w request self)) =
     (if sig_begin w = [] then two_fa_code self else Some (last (sig_begin w)))"
  by (simp_all add: entered_def)

lemma begin_outcome_Inr:
  "begin_outcome w request = Inr result \<Longrightarrow> \<exists>env. start_cancellation env request = Inr result"
  unfolding begin_outcome_def execute_activity_def
  by (drule retrying_Inr) blast

lemma run_cases:
  "fst (run w request self) = entered w request self
   \<or> (\<exists>result. run w request self = step2 w request (entered w request self) result)
   \<or> (\<exists>result. run w request self = step4 w request (entered w request self) result)"
  by (auto simp: run_unfold split: sum.splits)

lemma two_fa_result:
  assumes "begin_outcome w request = Inr result"
      and "dict_get result ''status'' = VStr ''2FA_REQUIRED''"
  shows "\<exists>sid m sn. sid \<noteq> []
           \<and> result = [(''status'', VStr ''2FA_REQUIRED''), (''session_id'', VStr sid),
                       (''message'', m), (''service_name'', sn)]
           \<and> subscript request ''service_name'' = Inr sn"
proof -
  from begin_outcome_Inr [OF assms(1)] obtain env
    where "start_cancellation env request = Inr result" by blast
  from start_cancellation_shape [OF this] assms(2) show ?thesis
    by (auto simp: dict_get_def subscript_def split: option.splits)
qed

lemma success_result:
  assumes "begin_outcome w request = Inr result"
      and "dict_get result ''status'' = VStr ''SUCCESS''"
  shows "\<exists>sid p t sn. sid \<noteq> []
           \<and> result = [(''status'', VStr ''SUCCESS''), (''session_id'', VStr sid),
                       (''screenshot_path'', p), (''timestamp'', t), (''service_name'', sn)]"
proof -
  from begin_outcome_Inr [OF assms(1)] obtain env
    where "start_cancellation env request = Inr result" by blast
  from start_cancellation_shape [OF this] assms(2) show ?thesis
    by (auto simp: dict_get_def)
qed

lemma notify_end_irrelevant [simp]:
  "begin_outcome (w\<lparr>notify_end := x\<rparr>) request = begin_outcome w request"
  "entered (w\<lparr>notify_end := x\<rparr>) request self = entered w request self"
  "wait_condition (w\<lparr>notify_end := x\<rparr>) s = wait_condition w s"
  "step4 (w\<lparr>notify_end := x\<rparr>) request s result = step4 w request s result"
  by (simp_all add: begin_outcome_def entered_def wait_condition_def step4_def Let_def
        split: sum.splits)

lemma notify_end_irrelevant_step3 [simp]:
  "step3 (w\<lparr>notify_end := x\<rparr>) request s result = step3 w request s result"
  by (simp add: step3_def Let_def split: sum.splits)

lemma run_notified:
  assumes "begin_outcome w request = Inr result"
      and "dict_get result ''status'' = VStr ''2FA_REQUIRED''"
      and "subscript request ''user_id'' = Inr uid"
      and "subscript request ''service_name'' = Inr sn"
      and "notify_end w = Ran nenv"
  shows "run w request self =
           (case wait_condition w
                   (deliver (sig_notify w) (started ''send_push_notification''
                      [(''user_id'', uid),
                       (''title'', VStr (py_str sn @ '' needs verification'')),
                       (''body'', VStr ''Enter the code from your SMS/email to continue cancellation'')]
                      (set_status ''AWAITING_2FA'' (entered w request self)))) of
              None \<Rightarrow>
                (set_status ''TIMEOUT''
                   (deliver (sig_notify w) (started ''send_push_notification''
                      [(''user_id'', uid),
                       (''title'', VStr (py_str sn @ '' needs verification'')),
                       (''body'', VStr ''Enter the code from your SMS/email to continue cancellation'')]
                      (set_status ''AWAITING_2FA'' (entered w request self)))),
                 Inr [(''status'', VStr ''FAILED''),
                      (''reason'', VStr ''2FA code not provided in time'')])
            | Some s3 \<Rightarrow> step3 w request s3 result)"
proof -
  let ?payload = "[(''user_id'', uid),
      (''title'', VStr (py_str sn @ '' needs verification'')),
      (''body'', VStr ''Enter the code from your SMS/email to continue cancellation'')]"
  from invoke_notification [of nenv ?payload] obtain r
    where r: "invoke (notify_end w) (\<lambda>env. send_push_notification env ?payload) = Inr r"
    using assms(5) by auto
  have "run w request self = step2 w request (entered w request self) result"
    using assms(1,2) by (simp add: run_unfold subscript_of_get)
  then show ?thesis
    using assms(3,4) r by (simp add: step2_def Let_def)
qed

lemma step3_keeps_code:
  "two_fa_code (wf s) \<noteq> None \<Longrightarrow> two_fa_code (wf (fst (step3 w request s result))) \<noteq> None"
  using step3_obs [of s w request result] by (auto simp: observed_def)

lemma run_keeps_code:
  "two_fa_code self \<noteq> None \<Longrightarrow> two_fa_code (wf (fst (run w request self))) \<noteq> None"
proof -
  assume a: "two_fa_code self \<noteq> None"
  let ?e = "entered w request self"
  have e: "two_fa_code (wf ?e) \<noteq> None" using a by simp
  consider (a) "fst (run w request self) = ?e"
    | (b) result where "run w request self = step2 w request ?e result"
    | (c) result where "run w request self = step4 w request ?e result"
    using run_cases [of w request self] by blast
  then show ?thesis
  proof cases
    case a
    then show ?thesis using e by simp
  next
    case b
    show ?thesis unfolding b using step2_obs [of ?e w request result] e
      by (auto simp: observed_def)
  next
    case c
    show ?thesis unfolding c using step4_obs [of ?e w request result] e
      by (auto simp: observed_def)
  qed
qed

lemma run_injects_once:
  "length (filter (\<lambda>n. n = ''inject_2fa_code'') (map fst (invoked (fst (run w request self))))) \<le> 1"
proof -
  let ?e = "entered w request self"
  consider (a) "fst (run w request self) = ?e"
    | (b) result where "run w request self = step2 w request ?e result"
    | (c) result where "run w request self = step4 w request ?e result"
    using run_cases [of w request self] by blast
  then show ?thesis
  proof cases
    case a
    then show ?thesis by simp
  next
    case b
    show ?thesis unfolding b using step2_obs [of ?e w request result]
      by (auto simp: observed_def)
  next
    case c
    show ?thesis unfolding c using step4_obs [of ?e w request result]
      by (auto simp: observed_def)
  qed
qed

lemma step2_no_timeout:
  assumes "two_fa_code (wf s) \<noteq> None" and "''TIMEOUT'' \<notin> set (trace s)"
  shows "''TIMEOUT'' \<notin> set (trace (fst (step2 w request s result)))"
proof (cases "subscript request ''user_id''")
  case (Inl e)
  then show ?thesis using assms by (simp add: step2_def)
next
  case uid: (Inr user_id)
  show ?thesis
  proof (cases "subscript request ''service_name''")
    case (Inl e)
    then show ?thesis using uid assms by (simp add: step2_def)
  next
    case sn: (Inr service_name)
    let ?s2 = "deliver (sig_notify w)
       (started ''send_push_notification''
          [(''user_id'', user_id),
           (''title'', VStr (py_str service_name @ '' needs verification'')),
           (''body'', VStr ''Enter the code from your SMS/email to continue cancellation'')]
          (set_status ''AWAITING_2FA'' s))"
    have code: "two_fa_code (wf ?s2) \<noteq> None" using assms(1) by simp
    then have go: "wait_condition w ?s2 = Some ?s2" by (simp add: wait_condition_def)
    have t: "''TIMEOUT'' \<notin> set (trace ?s2)" using assms(2) by simp
    show ?thesis
    proof (cases "invoke (notify_end w) (\<lambda>env. send_push_notification env
          [(''user_id'', user_id),
           (''title'', VStr (py_str service_name @ '' needs verification'')),
           (''body'', VStr ''Enter the code from your SMS/email to continue cancellation'')])")
      case (Inl e)
      then have "fst (step2 w request s result) = ?s2"
        using uid sn by (simp add: step2_def Let_def)
      then show ?thesis using t by simp
    next
      case (Inr r)
      then have "step2 w request s result = step3 w request ?s2 result"
        using uid sn go by (simp add: step2_def Let_def)
      then show ?thesis
        using step3_obs [of ?s2 w request result] t
        by (auto simp: observed_def)
    qed
  qed
qed

lemma early_code_no_timeout:
  assumes "sig_begin w \<noteq> []"
  shows "''TIMEOUT'' \<notin> set (trace (fst (run w request init)))"
proof -
  let ?e = "entered w request init"
  have code: "two_fa_code (wf ?e) \<noteq> None" using assms by simp
  have t: "''TIMEOUT'' \<notin> set (trace ?e)" by (simp add: init_def)
  consider (a) "fst (run w request init) = ?e"
    | (b) result where "run w request init = step2 w request ?e result"
    | (c) result where "run w request init = step4 w request ?e result"
    using run_cases [of w request init] by blast
  then show ?thesis
  proof cases
    case a
    then show ?thesis using t by simp
  next
    case b
    then show ?thesis using step2_no_timeout [OF code t] by simp
  next
    case c
    show ?thesis unfolding c using step4_obs [of ?e w request result] t
      by (auto simp: observed_def)
  qed
qed

subsection \<open>Which steps a run went through\<close>

lemma names_simps [simp]:
  "map fst (invoked (set_status x s)) = map fst (invoked s)"
  "map fst (invoked (deliver cs s)) = map fst (invoked s)"
  "map fst (invoked (started n p s)) = map fst (invoked s) @ [n]"
  by simp_all

lemma step3_factor:
  "map fst (invoked (fst (step3 w request s result))) = map fst (invoked s)
   \<or> map fst (invoked (fst (step3 w request s result))) = map fst (invoked s) @ [''inject_2fa_code'']
   \<or> (\<exists>s2 r2. step3 w request s result = step4 w request s2 r2
          \<and> map fst (invoked s2) = map fst (invoked s) @ [''inject_2fa_code''])"
proof (cases "subscript result ''session_id''")
  case (Inl e)
  then show ?thesis by (simp add: step3_def)
next
  case (Inr sid)
  define payload where "payload = [(''session_id'', sid), (''code'', code_val (two_fa_code (wf s)))]"
  define s2 where "s2 = deliver (sig_inject w) (started ''inject_2fa_code'' payload (set_status ''VERIFYING_2FA'' s))"
  have names: "map fst (invoked s2) = map fst (invoked s) @ [''inject_2fa_code'']"
    by (simp add: s2_def)
  show ?thesis
  proof (cases "invoke (inject_end w) (\<lambda>env. inject_2fa_code env payload)")
    case (Inl e)
    then have "fst (step3 w request s result) = s2"
      using Inr by (simp add: step3_def payload_def s2_def)
    then show ?thesis using names by simp
  next
    case (Inr r2)
    have "step3 w request s result = step4 w request s2 r2"
      using \<open>subscript result ''session_id'' = Inr sid\<close> Inr
      by (simp add: step3_def payload_def s2_def)
    then show ?thesis using names by blast
  qed
qed

lemma step2_factor:
  "map fst (invoked (fst (step2 w request s result))) = map fst (invoked s)
   \<or> map fst (invoked (fst (step2 w request s result))) = map fst (invoked s) @ [''send_push_notification'']
   \<or> (\<exists>s3. step2 w request s result = step3 w request s3 result
          \<and> map fst (invoked s3) = map fst (invoked s) @ [''send_push_notification'']
          \<and> two_fa_code (wf s3) \<noteq> None)"
proof (cases "\<exists>s3. step2 w request s result = step3 w request s3 result
          \<and> map fst (invoked s3) = map fst (invoked s) @ [''send_push_notification'']
          \<and> two_fa_code (wf s3) \<noteq> None")
  case True
  then show ?thesis by blast
next
  case False
  have "map fst (invoked (fst (step2 w request s result))) = map fst (invoked s)
   \<or> map fst (invoked (fst (step2 w request s result))) = map fst (invoked s) @ [''send_push_notification'']"
  proof (cases "subscript request ''user_id''")
    case (Inl e)
    then show ?thesis by (simp add: step2_def)
  next
    case uid: (Inr user_id)
    show ?thesis
    proof (cases "subscript request ''service_name''")
      case (Inl e)
      then show ?thesis using uid by (simp add: step2_def)
    next
      case sn: (Inr service_name)
      define payload where "payload =
         [(''user_id'', user_id),
          (''title'', VStr (py_str service_name @ '' needs verification'')),
          (''body'', VStr ''Enter the code from your SMS/email to continue cancellation'')]"
      define s2 where "s2 = deliver (sig_notify w)
         (started ''send_push_notification'' payload (set_status ''AWAITING_2FA'' s))"
      have names: "map fst (invoked s2) = map fst (invoked s) @ [''send_push_notification'']"
        by (simp add: s2_def)
      show ?thesis
      proof (cases "invoke (notify_end w) (\<lambda>env. send_push_notification env payload)")
        case (Inl e)
        then have "fst (step2 w request s result) = s2"
          using uid sn by (simp add: step2_def payload_def s2_def)
        then show ?thesis using names by simp
      next
        case sent: (Inr r)
        show ?thesis
        proof (cases "wait_condition w s2")
          case None
          then have "fst (step2 w request s result) = set_status ''TIMEOUT'' s2"
            using uid sn sent by (simp add: step2_def payload_def s2_def)
          then show ?thesis using names by simp
        next
          case (Some s3)
          then have "step2 w request s result = step3 w request s3 result"
            using uid sn sent by (simp add: step2_def payload_def s2_def)
          moreover have "map fst (invoked s3) = map fst (invoked s) @ [''send_push_notification'']"
            using wait_condition_Some [OF Some] names by simp
          moreover have "two_fa_code (wf s3) \<noteq> None"
            using wait_condition_Some [OF Some] by simp
          ultimately show ?thesis using False by blast
        qed
      qed
    qed
  qed
  then show ?thesis by blast
qed

lemma step4_names:
  "map fst (invoked (fst (step4 w request s result))) = map fst (invoked s)
   \<or> map fst (invoked (fst (step4 w request s result))) = map fst (invoked s) @ [''capture_proof'']"
  by (auto simp: step4_def Let_def split: sum.splits)

lemma capture_started_step4:
  assumes "''capture_proof'' \<notin> set (map fst (invoked s))"
      and "''capture_proof'' \<in> set (map fst (invoked (fst (step4 w request s result))))"
      and "capture_end w = Ran cenv" and "raised cenv = Some e"
  shows "status (wf (fst (step4 w request s result))) = ''COMPLETED''
            \<and> snd (step4 w request s result) =
                Inr [(''status'', VStr ''SUCCESS''), (''screenshot_url'', VNone),
                     (''video_url'', VNone),
                     (''savings_per_year'', dict_get_default request ''annual_cost'' (VInt 0)),
                     (''cancelled_at'', VStr (now_iso w))]"
  using assms
  by (auto simp: step4_def Let_def invoke_def attempt_outcome_def capture_proof_def
        subscript_def dict_get_def split: sum.splits option.splits if_splits)

text \<open>Where a run that started \<open>capture_proof\<close> or \<open>inject_2fa_code\<close> went through.\<close>

lemma run_to_step4:
  assumes "''capture_proof'' \<in> set (map fst (invoked (fst (run w request self))))"
  shows "\<exists>s r. run w request self = step4 w request s r
           \<and> ''capture_proof'' \<notin> set (map fst (invoked s))"
proof -
  let ?e = "entered w request self"
  have e: "map fst (invoked ?e) = [''start_cancellation'']" by simp
  consider (a) "fst (run w request self) = ?e"
    | (b) result where "run w request self = step2 w request ?e result"
    | (c) result where "run w request self = step4 w request ?e result"
    using run_cases [of w request self] by blast
  then show ?thesis
  proof cases
    case a
    then show ?thesis using assms by simp
  next
    case c
    then show ?thesis using e by auto
  next
    case b
    from step2_factor [of w request ?e result]
    consider (b1) "map fst (invoked (fst (step2 w request ?e result))) = map fst (invoked ?e)"
      | (b2) "map fst (invoked (fst (step2 w request ?e result)))
                = map fst (invoked ?e) @ [''send_push_notification'']"
      | (b3) s3 where "step2 w request ?e result = step3 w request s3 result"
                "map fst (invoked s3) = map fst (invoked ?e) @ [''send_push_notification'']"
      by blast
    then show ?thesis
    proof cases
      case b1
      then show ?thesis using assms b by simp
    next
      case b2
      then show ?thesis using assms b by simp
    next
      case b3
      from step3_factor [of w request s3 result]
      consider (c1) "map fst (invoked (fst (step3 w request s3 result))) = map fst (invoked s3)"
        | (c2) "map fst (invoked (fst (step3 w request s3 result)))
                  = map fst (invoked s3) @ [''inject_2fa_code'']"
        | (c3) s2 r2 where "step3 w request s3 result = step4 w request s2 r2"
                  "map fst (invoked s2) = map fst (invoked s3) @ [''inject_2fa_code'']"
        by blast
      then show ?thesis
      proof cases
        case c1
        then show ?thesis using assms b b3 by simp
      next
        case c2
        then show ?thesis using assms b b3 by simp
      next
        case c3
        then show ?thesis using b b3 by auto
      qed
    qed
  qed
qed

lemma run_to_step3:
  assumes "''inject_2fa_code'' \<in> set (map fst (invoked (fst (run w request self))))"
  shows "\<exists>s result. run w request self = step3 w request s result
           \<and> two_fa_code (wf s) \<noteq> None"
proof -
  let ?e = "entered w request self"
  have e: "map fst (invoked ?e) = [''start_cancellation'']" by simp
  consider (a) "fst (run w request self) = ?e"
    | (b) result where "run w request self = step2 w request ?e result"
    | (c) result where "run w request self = step4 w request ?e result"
    using run_cases [of w request self] by blast
  then show ?thesis
  proof cases
    case a
    then show ?thesis using assms by simp
  next
    case c
    then show ?thesis using assms e step4_names [of w request ?e result] by auto
  next
    case b
    from step2_factor [of w request ?e result]
    consider (b1) "map fst (invoked (fst (step2 w request ?e result))) = map fst (invoked ?e)"
      | (b2) "map fst (invoked (fst (step2 w request ?e result)))
                = map fst (invoked ?e) @ [''send_push_notification'']"
      | (b3) s3 where "step2 w request ?e result = step3 w request s3 result"
                "two_fa_code (wf s3) \<noteq> None"
      by blast
    then show ?thesis
    proof cases
      case b1
      then show ?thesis using assms b by simp
    next
      case b2
      then show ?thesis using assms b by simp
    next
      case b3
      then show ?thesis using b by auto
    qed
  qed
qed

subsection \<open>What a run starts, and what it does not depend on\<close>

lemma step4_invoked:
  "\<exists>extra. invoked (fst (step4 w request s result)) = invoked s @ extra"
  by (auto simp: step4_def Let_def split: sum.splits)

lemma step3_injects:
  assumes "subscript result ''session_id'' = Inr sid"
  shows "\<exists>extra. invoked (fst (step3 w request s result)) =
           invoked s @ (''inject_2fa_code'',
                        [(''session_id'', sid), (''code'', code_val (two_fa_code (wf s)))]) # extra"
proof (cases "invoke (inject_end w) (\<lambda>env. inject_2fa_code env
                 [(''session_id'', sid), (''code'', code_val (two_fa_code (wf s)))])")
  case (Inl e)
  then show ?thesis using assms by (simp add: step3_def Let_def)
next
  case (Inr r)
  let ?s2 = "deliver (sig_inject w) (started ''inject_2fa_code''
               [(''session_id'', sid), (''code'', code_val (two_fa_code (wf s)))]
               (set_status ''VERIFYING_2FA'' s))"
  have "step3 w request s result = step4 w request ?s2 r"
    using assms Inr by (simp add: step3_def Let_def)
  then show ?thesis using step4_invoked [of w request ?s2 r] by auto
qed


lemma inject_code_independent:
  "c \<noteq> [] \<Longrightarrow> c' \<noteq> [] \<Longrightarrow>
   inject_2fa_code env [(''session_id'', x), (''code'', VStr c)]
     = inject_2fa_code env [(''session_id'', x), (''code'', VStr c')]"
  by (simp add: inject_2fa_code_def dict_get_def split: option.splits)

lemma step4_same:
  "trace s = trace s' \<Longrightarrow>
   trace (fst (step4 w request s r)) = trace (fst (step4 w request s' r))
   \<and> snd (step4 w request s r) = snd (step4 w request s' r)"
  by (auto simp: step4_def Let_def split: sum.splits)

lemma step3_same:
  assumes "trace s = trace s'"
      and "two_fa_code (wf s) = Some c" and "two_fa_code (wf s') = Some c'"
      and "c \<noteq> []" and "c' \<noteq> []"
  shows "trace (fst (step3 w request s result)) = trace (fst (step3 w request s' result))
         \<and> snd (step3 w request s result) = snd (step3 w request s' result)"
proof (cases "subscript result ''session_id''")
  case (Inl e)
  then show ?thesis using assms(1) by (simp add: step3_def)
next
  case (Inr sid)
  let ?p = "[(''session_id'', sid), (''code'', VStr c)]"
  let ?p' = "[(''session_id'', sid), (''code'', VStr c')]"
  let ?s2 = "deliver (sig_inject w) (started ''inject_2fa_code'' ?p (set_status ''VERIFYING_2FA'' s))"
  let ?s2' = "deliver (sig_inject w) (started ''inject_2fa_code'' ?p' (set_status ''VERIFYING_2FA'' s'))"
  have same: "invoke (inject_end w) (\<lambda>env. inject_2fa_code env ?p')
                = invoke (inject_end w) (\<lambda>env. inject_2fa_code env ?p)"
    using inject_code_independent [OF assms(4,5)] by simp
  have t: "trace ?s2 = trace ?s2'" using assms(1) by simp
  show ?thesis
  proof (cases "invoke (inject_end w) (\<lambda>env. inject_2fa_code env ?p)")
    case (Inl e)
    then show ?thesis
      using Inr same assms(1,2,3) by (simp add: step3_def Let_def code_val_def)
  next
    case r: (Inr r2)
    have "step3 w request s result = step4 w request ?s2 r2"
      using Inr r assms(2) by (simp add: step3_def Let_def code_val_def)
    moreover have "step3 w request s' result = step4 w request ?s2' r2"
      using Inr r same assms(3) by (simp add: step3_def Let_def code_val_def)
    ultimately show ?thesis using step4_same [OF t] by simp
  qed
qed

lemma sig_wait_irrelevant [simp]:
  "entered (w\<lparr>sig_wait := x\<rparr>) request self = entered w request self"
  "step4 (w\<lparr>sig_wait := x\<rparr>) request s result = step4 w request s result"
  by (simp_all add: entered_def step4_def Let_def split: sum.splits)

lemma sig_wait_irrelevant_step3 [simp]:
  "step3 (w\<lparr>sig_wait := x\<rparr>) request s result = step3 w request s result"
  by (simp add: step3_def Let_def split: sum.splits)

subsection \<open>The statuses of a run\<close>


subsection \<open>The writes of a run\<close>


lemma deliveries_status:
  "x \<in> set (deliveries self codes) \<Longrightarrow> status x = status self"
  by (induction codes arbitrary: self) (auto simp: provide_2fa_code_def)






lemma live_simps [simp]:
  "\<not> terminal ''PENDING''" "\<not> terminal ''STARTING''" "\<not> terminal ''NAVIGATING''"
  "\<not> terminal ''AWAITING_2FA''" "\<not> terminal ''VERIFYING_2FA''" "\<not> terminal ''CAPTURING_PROOF''"
  by (simp_all add: terminal_def)







section \<open>The scenarios, evaluated\<close>

lemmas scenario_defs = scenario_A_def scenario_B_def scenario_C_def scenario_D_def scenario_E_def
  scenario_early_def scenario_unnotified_def scenario_unnotified_B_def scenario_unproven_def
  scenario_silent_def scenario_rejected_def scenario_def agent_with_def body_with_def
  request_netflix_def

lemmas activity_defs = start_cancellation_def start_cancellation_body_def cancel_subscription_def
  inject_2fa_code_def capture_proof_def send_push_notification_def dict_get_def
  dict_get_default_def subscript_def lower_def lower_char_def

lemmas engine_defs = execute_activity_def attempt_outcome_def invoke_def retry_delay_def
  backoff_coefficient_def begin_outcome_def numeral_2_eq_2

lemmas workflow_defs = run_def step2_def step3_def step4_def wait_condition_def init_def
  code_val_def set_status_def started_def deliver_def provide_2fa_code_def result_field_def Let_def

lemma run_scenario_A:
  "wf (fst (run scenario_A request_netflix init)) = \<lparr>two_fa_code = None, status = ''COMPLETED''\<rparr>
   \<and> trace (fst (run scenario_A request_netflix init)) =
       [''PENDING'', ''STARTING'', ''NAVIGATING'', ''CAPTURING_PROOF'', ''COMPLETED'']
   \<and> invoked (fst (run scenario_A request_netflix init)) =
       [(''start_cancellation'', request_netflix),
                  (''capture_proof'', [(''session_id'', VStr ''Netflix_123_1767607200.5'')])]
   \<and> snd (run scenario_A request_netflix init) =
      Inr [(''status'', VStr ''SUCCESS''),
           (''screenshot_url'', VStr
              ''https://storage.supabase.co/proof/Netflix_123_1767607200.5/screenshot.png''),
           (''video_url'', VStr
              ''https://steel.dev/sessions/Netflix_123_1767607200.5/recording.mp4''),
           (''savings_per_year'', VInt 180),
           (''cancelled_at'', VStr ''2026-01-05T10:00:03'')]"
  by (simp add: scenario_defs activity_defs engine_defs workflow_defs)

lemma run_scenario_B:
  "wf (fst (run scenario_B request_netflix init)) = \<lparr>two_fa_code = Some ''482913'', status = ''COMPLETED''\<rparr>
   \<and> trace (fst (run scenario_B request_netflix init)) =
       [''PENDING'', ''STARTING'', ''NAVIGATING'', ''AWAITING_2FA'', ''VERIFYING_2FA'',
                ''CAPTURING_PROOF'', ''COMPLETED'']
   \<and> invoked (fst (run scenario_B request_netflix init)) =
       [(''start_cancellation'', request_netflix),
                  (''send_push_notification'',
                     [(''user_id'', VStr ''123''),
                      (''title'', VStr ''Netflix needs verification''),
                      (''body'', VStr
                         ''Enter the code from your SMS/email to continue cancellation'')]),
                  (''inject_2fa_code'', [(''session_id'', VStr ''Netflix_123_1767607200.5''),
                                         (''code'', VStr ''482913'')]),
                  (''capture_proof'', [(''session_id'', VStr ''Netflix_123_1767607200.5'')])]
   \<and> snd (run scenario_B request_netflix init) =
      Inr [(''status'', VStr ''SUCCESS''),
           (''screenshot_url'', VStr
              ''https://storage.supabase.co/proof/Netflix_123_1767607200.5/screenshot.png''),
           (''video_url'', VStr
              ''https://steel.dev/sessions/Netflix_123_1767607200.5/recording.mp4''),
           (''savings_per_year'', VInt 180),
           (''cancelled_at'', VStr ''2026-01-05T10:00:03'')]"
  by (simp add: scenario_defs activity_defs engine_defs workflow_defs)

lemma run_scenario_C:
  "wf (fst (run scenario_C request_netflix init)) = \<lparr>two_fa_code = None, status = ''TIMEOUT''\<rparr>
   \<and> trace (fst (run scenario_C request_netflix init)) =
       [''PENDING'', ''STARTING'', ''NAVIGATING'', ''AWAITING_2FA'', ''TIMEOUT'']
   \<and> invoked (fst (run scenario_C request_netflix init)) =
       [(''start_cancellation'', request_netflix),
                  (''send_push_notification'',
                     [(''user_id'', VStr ''123''),
                      (''title'', VStr ''Netflix needs verification''),
                      (''body'', VStr
                         ''Enter the code from your SMS/email to continue cancellation'')])]
   \<and> snd (run scenario_C request_netflix init) =
      Inr [(''status'', VStr ''FAILED''),
           (''reason'', VStr ''2FA code not provided in time'')]"
  by (simp add: scenario_defs activity_defs engine_defs workflow_defs)

lemma run_scenario_D:
  "wf (fst (run scenario_D request_netflix init)) = \<lparr>two_fa_code = None, status = ''NAVIGATING''\<rparr>
   \<and> trace (fst (run scenario_D request_netflix init)) =
       [''PENDING'', ''STARTING'', ''NAVIGATING'']
   \<and> invoked (fst (run scenario_D request_netflix init)) =
       [(''start_cancellation'', request_netflix)]
   \<and> snd (run scenario_D request_netflix init) =
      Inl (ActivityError ''activity timed out'')"
  by (simp add: scenario_defs activity_defs engine_defs workflow_defs)

lemma run_scenario_E:
  "wf (fst (run scenario_E request_netflix init)) = \<lparr>two_fa_code = Some ''482913'', status = ''COMPLETED''\<rparr>
   \<and> trace (fst (run scenario_E request_netflix init)) =
       [''PENDING'', ''STARTING'', ''NAVIGATING'', ''AWAITING_2FA'', ''VERIFYING_2FA'',
                ''CAPTURING_PROOF'', ''COMPLETED'']
   \<and> invoked (fst (run scenario_E request_netflix init)) =
       [(''start_cancellation'', request_netflix),
                  (''send_push_notification'',
                     [(''user_id'', VStr ''123''),
                      (''title'', VStr ''Netflix needs verification''),
                      (''body'', VStr
                         ''Enter the code from your SMS/email to continue cancellation'')]),
                  (''inject_2fa_code'', [(''session_id'', VStr ''Netflix_123_1767607200.5''),
                                         (''code'', VStr ''482913'')]),
                  (''capture_proof'', [(''session_id'', VStr ''Netflix_123_1767607200.5'')])]
   \<and> snd (run scenario_E request_netflix init) =
      Inr [(''status'', VStr ''SUCCESS''),
           (''screenshot_url'', VNone),
           (''video_url'', VNone),
           (''savings_per_year'', VInt 180),
           (''cancelled_at'', VStr ''2026-01-05T10:00:03'')]"
  by (simp add: scenario_defs activity_defs engine_defs workflow_defs)

lemma run_scenario_early:
  "wf (fst (run scenario_early request_netflix init))
     = \<lparr>two_fa_code = Some ''482913'', status = ''COMPLETED''\<rparr>
   \<and> trace (fst (run scenario_early request_netflix init)) =
       [''PENDING'', ''STARTING'', ''NAVIGATING'', ''AWAITING_2FA'', ''VERIFYING_2FA'',
        ''CAPTURING_PROOF'', ''COMPLETED'']"
  by (simp add: scenario_defs activity_defs engine_defs workflow_defs)

lemma run_scenario_unnotified:
  "run scenario_unnotified request_netflix init = run scenario_C request_netflix init"
  by (simp add: scenario_defs activity_defs engine_defs workflow_defs)

lemma two_fa_begin:
  "begin_outcome (scenario (Some ''2FA challenge shown'') codes) request_netflix =
     Inr [(''status'', VStr ''2FA_REQUIRED''), (''session_id'', VStr ''Netflix_123_1767607200.5''),
          (''message'', VStr ''User needs to provide verification code''),
          (''service_name'', VStr ''Netflix'')]"
  by (simp add: scenario_defs activity_defs engine_defs)

lemma begin_outcome_update [simp]:
  "begin_outcome (w\<lparr>notify_end := a\<rparr>) request = begin_outcome w request"
  "begin_outcome (w\<lparr>inject_end := b\<rparr>) request = begin_outcome w request"
  "begin_outcome (w\<lparr>capture_end := c\<rparr>) request = begin_outcome w request"
  "begin_outcome (w\<lparr>sig_wait := d\<rparr>) request = begin_outcome w request"
  "begin_outcome (w\<lparr>sig_begin := d\<rparr>) request = begin_outcome w request"
  by (simp_all add: begin_outcome_def)

section \<open>Properties of the workflow\<close>

subsection \<open>The 2FA timeout\<close>

text \<open>
  C1, as amended. When the begin activity reports a 2FA challenge, the request carries
  \<open>user_id\<close>, the notification invocation ends, and no code is signalled before or during
  the wait, the instance goes to \<open>TIMEOUT\<close>, only \<open>start_cancellation\<close> and
  \<open>send_push_notification\<close> were started, and \<open>run\<close> returns status \<open>FAILED\<close> with reason
  \<open>2FA code not provided in time\<close>.
\<close>

theorem two_fa_timeout:
  assumes "begin_outcome w request = Inr result"
      and "dict_get result ''status'' = VStr ''2FA_REQUIRED''"
      and "subscript request ''user_id'' = Inr uid"
      and "notify_end w = Ran nenv"
      and "sig_begin w = []" and "sig_notify w = []" and "sig_wait w = []"
  shows "status (wf (fst (run w request init))) = ''TIMEOUT''
         \<and> snd (run w request init) =
             Inr [(''status'', VStr ''FAILED''),
                  (''reason'', VStr ''2FA code not provided in time'')]
         \<and> map fst (invoked (fst (run w request init))) =
             [''start_cancellation'', ''send_push_notification'']
         \<and> trace (fst (run w request init)) =
             [''PENDING'', ''STARTING'', ''NAVIGATING'', ''AWAITING_2FA'', ''TIMEOUT'']"
proof -
  from two_fa_result [OF assms(1,2)] obtain sn
    where sn: "subscript request ''service_name'' = Inr sn" by blast
  let ?s2 = "deliver (sig_notify w) (started ''send_push_notification''
               [(''user_id'', uid),
                (''title'', VStr (py_str sn @ '' needs verification'')),
                (''body'', VStr ''Enter the code from your SMS/email to continue cancellation'')]
               (set_status ''AWAITING_2FA'' (entered w request init)))"
  have "wait_condition w ?s2 = None"
    using assms(5-7) by (simp add: wait_condition_def init_def)
  then show ?thesis
    using run_notified [OF assms(1,2,3) sn assms(4), of init] by (simp add: init_def)
qed

theorem two_fa_timeout_witness:
  "begin_outcome scenario_C request_netflix =
     Inr [(''status'', VStr ''2FA_REQUIRED''), (''session_id'', VStr ''Netflix_123_1767607200.5''),
          (''message'', VStr ''User needs to provide verification code''),
          (''service_name'', VStr ''Netflix'')]
   \<and> subscript request_netflix ''user_id'' = Inr (VStr ''123'')
   \<and> notify_end scenario_C = Ran (body_with None)
   \<and> sig_begin scenario_C = [] \<and> sig_notify scenario_C = [] \<and> sig_wait scenario_C = []
   \<and> status (wf (fst (run scenario_C request_netflix init))) = ''TIMEOUT''
   \<and> snd (run scenario_C request_netflix init) =
       Inr [(''status'', VStr ''FAILED''), (''reason'', VStr ''2FA code not provided in time'')]
   \<and> map fst (invoked (fst (run scenario_C request_netflix init))) =
       [''start_cancellation'', ''send_push_notification'']"
proof -
  have b: "begin_outcome scenario_C request_netflix =
     Inr [(''status'', VStr ''2FA_REQUIRED''), (''session_id'', VStr ''Netflix_123_1767607200.5''),
          (''message'', VStr ''User needs to provide verification code''),
          (''service_name'', VStr ''Netflix'')]"
    by (simp add: scenario_defs activity_defs engine_defs)
  have st: "dict_get [(''status'', VStr ''2FA_REQUIRED''), (''session_id'', VStr ''Netflix_123_1767607200.5''),
          (''message'', VStr ''User needs to provide verification code''),
          (''service_name'', VStr ''Netflix'')] ''status'' = VStr ''2FA_REQUIRED''"
    by (simp add: dict_get_def)
  have uid: "subscript request_netflix ''user_id'' = Inr (VStr ''123'')"
    by (simp add: request_netflix_def subscript_def)
  have n: "notify_end scenario_C = Ran (body_with None)"
    and s: "sig_begin scenario_C = []" "sig_notify scenario_C = []" "sig_wait scenario_C = []"
    by (simp_all add: scenario_C_def scenario_def)
  from two_fa_timeout [OF b st uid n s] b uid n s show ?thesis by simp
qed

text \<open>
  C1 as stated fails in scenario C: the reason is not \<open>2FA not provided in time\<close> and
  the status of the result is not \<open>TIMEOUT\<close>.
\<close>

theorem timeout_result_counterexample:
  "status (wf (fst (run scenario_C request_netflix init))) = ''TIMEOUT''
   \<and> result_field (snd (run scenario_C request_netflix init)) ''reason''
       = VStr ''2FA code not provided in time''
   \<and> result_field (snd (run scenario_C request_netflix init)) ''reason''
       \<noteq> VStr ''2FA not provided in time''
   \<and> result_field (snd (run scenario_C request_netflix init)) ''status'' = VStr ''FAILED''
   \<and> result_field (snd (run scenario_C request_netflix init)) ''status'' \<noteq> VStr ''TIMEOUT''"
  by (simp add: run_scenario_C result_field_def dict_get_def)

subsection \<open>Signals outside the wait\<close>

text \<open>
  C2, as amended. In every state of the instance and for every code, the signal handler
  keeps \<open>status\<close> and stores the code, whether the instance is in \<open>AWAITING_2FA\<close> or not;
  it has no failure. A stored code satisfies \<open>wait_condition\<close> at once, so a run in which a
  code is signalled while \<open>start_cancellation\<close> runs never reaches \<open>TIMEOUT\<close>.
\<close>

theorem provide_2fa_code_in_any_state:
  "status (provide_2fa_code code self) = status self
   \<and> two_fa_code (provide_2fa_code code self) = Some code
   \<and> wait_condition w (s\<lparr>wf := provide_2fa_code code (wf s)\<rparr>)
       = Some (s\<lparr>wf := provide_2fa_code code (wf s)\<rparr>)
   \<and> (sig_begin w \<noteq> [] \<longrightarrow> ''TIMEOUT'' \<notin> set (trace (fst (run w request init))))"
  using early_code_no_timeout [of w request]
  by (simp add: provide_2fa_code_def wait_condition_def)

theorem provide_2fa_code_in_any_state_witness:
  "status (provide_2fa_code ''482913'' init) = ''PENDING''
   \<and> two_fa_code (provide_2fa_code ''482913'' init) = Some ''482913''
   \<and> sig_begin scenario_early \<noteq> []
   \<and> ''TIMEOUT'' \<notin> set (trace (fst (run scenario_early request_netflix init)))"
proof -
  have s: "sig_begin scenario_early \<noteq> []"
    by (simp add: scenario_early_def)
  have i: "status init = ''PENDING''" by (simp add: init_def)
  from provide_2fa_code_in_any_state
         [where code = "''482913''" and self = init and w = scenario_early
            and request = request_netflix] s i
  show ?thesis by simp
qed

text \<open>
  C2 as stated fails: a signal to an instance in \<open>PENDING\<close> changes its state, and a code
  signalled while \<open>start_cancellation\<close> runs turns the timeout of scenario C into a
  completed run.
\<close>

theorem signal_before_awaiting_counterexample:
  "status init \<noteq> ''AWAITING_2FA''
   \<and> provide_2fa_code ''482913'' init \<noteq> init
   \<and> status (wf (fst (run scenario_C request_netflix init))) = ''TIMEOUT''
   \<and> status (wf (fst (run scenario_early request_netflix init))) = ''COMPLETED''"
proof -
  have "status init \<noteq> ''AWAITING_2FA''" and "provide_2fa_code ''482913'' init \<noteq> init"
    by (simp_all add: init_def provide_2fa_code_def)
  moreover have "status (wf (fst (run scenario_C request_netflix init))) = ''TIMEOUT''"
    by (simp add: run_scenario_C)
  moreover have "status (wf (fst (run scenario_early request_netflix init))) = ''COMPLETED''"
    using run_scenario_early by (simp add: run_scenario_B)
  ultimately show ?thesis by blast
qed

subsection \<open>The pending code after it is read\<close>

text \<open>
  C3, as amended. \<open>run\<close> never clears the pending code: a code present at the start is
  present at the end, after a run that started \<open>inject_2fa_code\<close> the slot still holds a
  code, and a run starts \<open>inject_2fa_code\<close> at most once.
\<close>

theorem pending_code_survives_read:
  "(two_fa_code self \<noteq> None \<longrightarrow> two_fa_code (wf (fst (run w request self))) \<noteq> None)
   \<and> (''inject_2fa_code'' \<in> set (map fst (invoked (fst (run w request self))))
        \<longrightarrow> two_fa_code (wf (fst (run w request self))) \<noteq> None)
   \<and> length (filter (\<lambda>n. n = ''inject_2fa_code'')
               (map fst (invoked (fst (run w request self))))) \<le> 1"
proof (intro conjI impI)
  assume "two_fa_code self \<noteq> None"
  then show "two_fa_code (wf (fst (run w request self))) \<noteq> None"
    by (rule run_keeps_code)
next
  assume "''inject_2fa_code'' \<in> set (map fst (invoked (fst (run w request self))))"
  from run_to_step3 [OF this] obtain s result
    where "run w request self = step3 w request s result" "two_fa_code (wf s) \<noteq> None"
    by blast
  then show "two_fa_code (wf (fst (run w request self))) \<noteq> None"
    using step3_keeps_code by simp
next
  show "length (filter (\<lambda>n. n = ''inject_2fa_code'')
               (map fst (invoked (fst (run w request self))))) \<le> 1"
    by (rule run_injects_once)
qed

theorem pending_code_survives_read_witness:
  "two_fa_code (provide_2fa_code ''000000'' init) \<noteq> None
   \<and> ''inject_2fa_code'' \<in> set (map fst (invoked (fst (run scenario_B request_netflix
                                                          (provide_2fa_code ''000000'' init)))))
   \<and> two_fa_code (wf (fst (run scenario_B request_netflix (provide_2fa_code ''000000'' init))))
       \<noteq> None"
proof -
  have a: "two_fa_code (provide_2fa_code ''000000'' init) \<noteq> None"
    by (simp add: provide_2fa_code_def)
  have b: "''inject_2fa_code'' \<in> set (map fst (invoked (fst (run scenario_B request_netflix
                                                          (provide_2fa_code ''000000'' init)))))"
    by (simp add: scenario_defs activity_defs engine_defs workflow_defs)
  from pending_code_survives_read [of "provide_2fa_code ''000000'' init" scenario_B request_netflix]
    a b show ?thesis by simp
qed

text \<open>
  C3 as stated fails in scenario B: after the code has been passed to
  \<open>inject_2fa_code\<close> the slot is not empty.
\<close>

theorem pending_code_not_cleared_counterexample:
  "(''inject_2fa_code'', [(''session_id'', VStr ''Netflix_123_1767607200.5''),
                          (''code'', VStr ''482913'')])
     \<in> set (invoked (fst (run scenario_B request_netflix init)))
   \<and> two_fa_code (wf (fst (run scenario_B request_netflix init))) = Some ''482913''
   \<and> two_fa_code (wf (fst (run scenario_B request_netflix init))) \<noteq> None"
  by (simp add: run_scenario_B)

subsection \<open>Retry exhaustion\<close>

text \<open>
  C4, as amended. When the first three attempts at \<open>start_cancellation\<close> fail in the
  engine, the engine makes exactly these three attempts, waiting 1 s and 2 s between them,
  and raises \<open>ActivityError\<close> with the last failure; \<open>run\<close> does not catch it: the run ends
  with this error, \<open>status\<close> stays \<open>NAVIGATING\<close>, and nothing but \<open>start_cancellation\<close>
  was started.
\<close>

theorem retry_exhaustion_raises:
  assumes "begin_attempts w 1 = Fault m1" and "begin_attempts w 2 = Fault m2"
      and "begin_attempts w 3 = Fault m3"
  shows "execute_activity \<lparr>initial_interval = 1, maximum_interval = 300, maximum_attempts = 3\<rparr>
           (begin_attempts w) (\<lambda>env. start_cancellation env request)
           = (Inl (ActivityError m3), [(1, m1, Some 1), (2, m2, Some 2), (3, m3, None)])
         \<and> snd (run w request init) = Inl (ActivityError m3)
         \<and> status (wf (fst (run w request init))) = ''NAVIGATING''
         \<and> trace (fst (run w request init)) = [''PENDING'', ''STARTING'', ''NAVIGATING'']
         \<and> invoked (fst (run w request init)) = [(''start_cancellation'', request)]"
proof -
  have two: "begin_attempts w (Suc (Suc 0)) = Fault m2" using assms(2) by (simp add: numeral_2_eq_2)
  have three: "begin_attempts w (Suc (Suc (Suc 0))) = Fault m3"
    using assms(3) by (simp add: numeral_3_eq_3)
  have ex: "execute_activity \<lparr>initial_interval = 1, maximum_interval = 300, maximum_attempts = 3\<rparr>
           (begin_attempts w) (\<lambda>env. start_cancellation env request)
           = (Inl (ActivityError m3), [(1, m1, Some 1), (2, m2, Some 2), (3, m3, None)])"
    using assms(1) two three
    by (simp add: execute_activity_def attempt_outcome_def retry_delay_def
          backoff_coefficient_def numeral_2_eq_2 numeral_3_eq_3)
  then have "begin_outcome w request = Inl (ActivityError m3)"
    by (simp add: begin_outcome_def)
  then show ?thesis using ex by (simp add: run_unfold init_def)
qed

theorem retry_exhaustion_raises_witness:
  "begin_attempts scenario_D 1 = Fault ''activity timed out''
   \<and> begin_attempts scenario_D 2 = Fault ''activity timed out''
   \<and> begin_attempts scenario_D 3 = Fault ''activity timed out''
   \<and> execute_activity \<lparr>initial_interval = 1, maximum_interval = 300, maximum_attempts = 3\<rparr>
           (begin_attempts scenario_D) (\<lambda>env. start_cancellation env request_netflix)
           = (Inl (ActivityError ''activity timed out''),
              [(1, ''activity timed out'', Some 1), (2, ''activity timed out'', Some 2),
               (3, ''activity timed out'', None)])
   \<and> snd (run scenario_D request_netflix init) = Inl (ActivityError ''activity timed out'')
   \<and> status (wf (fst (run scenario_D request_netflix init))) = ''NAVIGATING''"
proof -
  have f: "begin_attempts scenario_D 1 = Fault ''activity timed out''"
    "begin_attempts scenario_D 2 = Fault ''activity timed out''"
    "begin_attempts scenario_D 3 = Fault ''activity timed out''"
    by (simp_all add: scenario_D_def scenario_def)
  from retry_exhaustion_raises [OF f, of request_netflix] f show ?thesis by simp
qed

text \<open>
  C4 as stated fails in scenario D: the instance is not \<open>FAILED\<close> and \<open>run\<close> raises.
\<close>

theorem retry_exhaustion_counterexample:
  "status (wf (fst (run scenario_D request_netflix init))) = ''NAVIGATING''
   \<and> status (wf (fst (run scenario_D request_netflix init))) \<noteq> ''FAILED''
   \<and> snd (run scenario_D request_netflix init) = Inl (ActivityError ''activity timed out'')"
  by (simp add: run_scenario_D)

subsection \<open>A failed proof capture\<close>

text \<open>
  C5, as amended. In every run that started \<open>capture_proof\<close> (the cancellation had
  succeeded) and in which \<open>capture_proof\<close> failed inside its body, the instance reaches
  \<open>COMPLETED\<close>, not \<open>FAILED\<close>, and \<open>run\<close> returns status \<open>SUCCESS\<close> with \<open>screenshot_url\<close>
  and \<open>video_url\<close> \<open>None\<close>; the result has no \<open>proofMissing\<close> entry.
\<close>

theorem proof_failure_completes:
  assumes "''capture_proof'' \<in> set (map fst (invoked (fst (run w request self))))"
      and "capture_end w = Ran cenv" and "raised cenv = Some e"
  shows "status (wf (fst (run w request self))) = ''COMPLETED''
         \<and> snd (run w request self) =
             Inr [(''status'', VStr ''SUCCESS''), (''screenshot_url'', VNone),
                  (''video_url'', VNone),
                  (''savings_per_year'', dict_get_default request ''annual_cost'' (VInt 0)),
                  (''cancelled_at'', VStr (now_iso w))]
         \<and> map_of [(''status'', VStr ''SUCCESS''), (''screenshot_url'', VNone),
                  (''video_url'', VNone),
                  (''savings_per_year'', dict_get_default request ''annual_cost'' (VInt 0)),
                  (''cancelled_at'', VStr (now_iso w))] ''proofMissing'' = None"
proof -
  from run_to_step4 [OF assms(1)] obtain s r
    where eq: "run w request self = step4 w request s r"
      and fresh: "''capture_proof'' \<notin> set (map fst (invoked s))"
    by blast
  from assms(1) have "''capture_proof'' \<in> set (map fst (invoked (fst (step4 w request s r))))"
    by (simp add: eq)
  from capture_started_step4 [OF fresh this assms(2,3)] show ?thesis
    by (simp add: eq)
qed

theorem proof_failure_completes_witness:
  "''capture_proof'' \<in> set (map fst (invoked (fst (run scenario_E request_netflix init))))
   \<and> capture_end scenario_E = Ran (body_with (Some ''upload failed''))
   \<and> raised (body_with (Some ''upload failed'')) = Some ''upload failed''
   \<and> status (wf (fst (run scenario_E request_netflix init))) = ''COMPLETED''
   \<and> snd (run scenario_E request_netflix init) =
       Inr [(''status'', VStr ''SUCCESS''), (''screenshot_url'', VNone), (''video_url'', VNone),
            (''savings_per_year'', VInt 180), (''cancelled_at'', VStr ''2026-01-05T10:00:03'')]"
proof -
  have a: "''capture_proof'' \<in> set (map fst (invoked (fst (run scenario_E request_netflix init))))"
    by (simp add: run_scenario_E)
  have b: "capture_end scenario_E = Ran (body_with (Some ''upload failed''))"
    by (simp add: scenario_E_def)
  have c: "raised (body_with (Some ''upload failed'')) = Some ''upload failed''"
    by (simp add: body_with_def)
  from proof_failure_completes [OF a b c] a b c show ?thesis
    by (simp add: request_netflix_def dict_get_default_def scenario_E_def scenario_B_def scenario_def)
qed

text \<open>
  C5 as stated fails in scenario E: the result has no \<open>proofMissing\<close> set and its status
  is \<open>SUCCESS\<close>, as for a proven cancellation.
\<close>

theorem proof_failure_counterexample:
  "status (wf (fst (run scenario_E request_netflix init))) = ''COMPLETED''
   \<and> result_field (snd (run scenario_E request_netflix init)) ''proofMissing'' \<noteq> VBool True
   \<and> result_field (snd (run scenario_E request_netflix init)) ''status'' = VStr ''SUCCESS''
   \<and> result_field (snd (run scenario_E request_netflix init)) ''status''
       \<noteq> VStr ''cancelled_but_unproven''
   \<and> snd (run scenario_E request_netflix init)
       = Inr [(''status'', VStr ''SUCCESS''), (''screenshot_url'', VNone), (''video_url'', VNone),
              (''savings_per_year'', VInt 180), (''cancelled_at'', VStr ''2026-01-05T10:00:03'')]"
  by (simp add: run_scenario_E result_field_def dict_get_def)

subsection \<open>A failed notification\<close>




subsection \<open>The transition graph\<close>




subsection \<open>Direct success\<close>

text \<open>
  C8, as amended. When the begin activity returns \<open>SUCCESS\<close>, neither
  \<open>send_push_notification\<close> nor \<open>inject_2fa_code\<close> is started and the status never is
  \<open>AWAITING_2FA\<close> or \<open>VERIFYING_2FA\<close>. Where the run ends depends on \<open>capture_proof\<close>:
  when it runs and nothing raises inside it, the instance reaches \<open>COMPLETED\<close> with a
  non-empty \<open>screenshot_url\<close>, only \<open>start_cancellation\<close> and \<open>capture_proof\<close> started;
  when a statement inside it raises, the instance reaches \<open>COMPLETED\<close> with
  \<open>screenshot_url\<close> \<open>None\<close>; when the engine reports the invocation failed, the run ends
  with \<open>ActivityError\<close> and the status stays \<open>CAPTURING_PROOF\<close>.
\<close>

theorem direct_success_completes:
  assumes "begin_outcome w request = Inr result"
      and "dict_get result ''status'' = VStr ''SUCCESS''"
  shows "''send_push_notification'' \<notin> set (map fst (invoked (fst (run w request init))))
         \<and> ''inject_2fa_code'' \<notin> set (map fst (invoked (fst (run w request init))))
         \<and> ''AWAITING_2FA'' \<notin> set (trace (fst (run w request init)))
         \<and> ''VERIFYING_2FA'' \<notin> set (trace (fst (run w request init)))
         \<and> (capture_end w = Ran cenv \<and> raised cenv = None \<longrightarrow>
              status (wf (fst (run w request init))) = ''COMPLETED''
              \<and> (\<exists>url. url \<noteq> []
                    \<and> result_field (snd (run w request init)) ''screenshot_url'' = VStr url)
              \<and> result_field (snd (run w request init)) ''status'' = VStr ''SUCCESS''
              \<and> map fst (invoked (fst (run w request init)))
                  = [''start_cancellation'', ''capture_proof'']
              \<and> trace (fst (run w request init)) =
                  [''PENDING'', ''STARTING'', ''NAVIGATING'', ''CAPTURING_PROOF'', ''COMPLETED''])
         \<and> (capture_end w = Ran cenv \<and> raised cenv = Some e \<longrightarrow>
              status (wf (fst (run w request init))) = ''COMPLETED''
              \<and> result_field (snd (run w request init)) ''status'' = VStr ''SUCCESS''
              \<and> result_field (snd (run w request init)) ''screenshot_url'' = VNone)
         \<and> (capture_end w = Fault m \<longrightarrow>
              snd (run w request init) = Inl (ActivityError m)
              \<and> status (wf (fst (run w request init))) = ''CAPTURING_PROOF''
              \<and> trace (fst (run w request init)) =
                  [''PENDING'', ''STARTING'', ''NAVIGATING'', ''CAPTURING_PROOF''])"
proof -
  from success_result [OF assms(1,2)] obtain sid p t sn where sid: "sid \<noteq> []"
    and result: "result = [(''status'', VStr ''SUCCESS''), (''session_id'', VStr sid),
                       (''screenshot_path'', p), (''timestamp'', t), (''service_name'', sn)]"
    by blast
  have run: "run w request init = step4 w request (entered w request init) result"
    using assms(1) by (simp add: run_unfold result subscript_def)
  have skipped: "''send_push_notification'' \<notin> set (map fst (invoked (fst (run w request init))))
         \<and> ''inject_2fa_code'' \<notin> set (map fst (invoked (fst (run w request init))))
         \<and> ''AWAITING_2FA'' \<notin> set (trace (fst (run w request init)))
         \<and> ''VERIFYING_2FA'' \<notin> set (trace (fst (run w request init)))"
    unfolding run using step4_obs [of "entered w request init" w request result]
    by (auto simp: observed_def init_def)
  have unproven: "capture_end w = Ran cenv \<and> raised cenv = Some e \<longrightarrow>
              status (wf (fst (run w request init))) = ''COMPLETED''
              \<and> result_field (snd (run w request init)) ''status'' = VStr ''SUCCESS''
              \<and> result_field (snd (run w request init)) ''screenshot_url'' = VNone"
    unfolding run
    by (simp add: step4_def result subscript_def invoke_def attempt_outcome_def capture_proof_def
          dict_get_def result_field_def Let_def init_def)
  have given_up: "capture_end w = Fault m \<longrightarrow>
              snd (run w request init) = Inl (ActivityError m)
              \<and> status (wf (fst (run w request init))) = ''CAPTURING_PROOF''
              \<and> trace (fst (run w request init)) =
                  [''PENDING'', ''STARTING'', ''NAVIGATING'', ''CAPTURING_PROOF'']"
    unfolding run
    by (simp add: step4_def result subscript_def invoke_def attempt_outcome_def
          Let_def init_def)
  have "capture_end w = Ran cenv \<and> raised cenv = None \<longrightarrow>
              status (wf (fst (run w request init))) = ''COMPLETED''
              \<and> (\<exists>url. url \<noteq> []
                    \<and> result_field (snd (run w request init)) ''screenshot_url'' = VStr url)
              \<and> result_field (snd (run w request init)) ''status'' = VStr ''SUCCESS''
              \<and> map fst (invoked (fst (run w request init)))
                  = [''start_cancellation'', ''capture_proof'']
              \<and> trace (fst (run w request init)) =
                  [''PENDING'', ''STARTING'', ''NAVIGATING'', ''CAPTURING_PROOF'', ''COMPLETED'']"
    unfolding run using sid
    by (simp add: step4_def result subscript_def invoke_def attempt_outcome_def capture_proof_def
          dict_get_def result_field_def Let_def init_def)
  with skipped unproven given_up show ?thesis by blast
qed

theorem direct_success_completes_witness:
  "begin_outcome scenario_A request_netflix =
     Inr [(''status'', VStr ''SUCCESS''), (''session_id'', VStr ''Netflix_123_1767607200.5''),
          (''screenshot_path'', VStr ''proofs/Netflix_2026-01-05T10:00:00.png''),
          (''timestamp'', VStr ''2026-01-05T10:00:01''), (''service_name'', VStr ''Netflix'')]
   \<and> capture_end scenario_A = Ran (body_with None) \<and> raised (body_with None) = None
   \<and> status (wf (fst (run scenario_A request_netflix init))) = ''COMPLETED''
   \<and> result_field (snd (run scenario_A request_netflix init)) ''screenshot_url''
       = VStr ''https://storage.supabase.co/proof/Netflix_123_1767607200.5/screenshot.png''
   \<and> map fst (invoked (fst (run scenario_A request_netflix init)))
       = [''start_cancellation'', ''capture_proof'']
   \<and> ''AWAITING_2FA'' \<notin> set (trace (fst (run scenario_A request_netflix init)))"
proof -
  have b: "begin_outcome scenario_A request_netflix =
     Inr [(''status'', VStr ''SUCCESS''), (''session_id'', VStr ''Netflix_123_1767607200.5''),
          (''screenshot_path'', VStr ''proofs/Netflix_2026-01-05T10:00:00.png''),
          (''timestamp'', VStr ''2026-01-05T10:00:01''), (''service_name'', VStr ''Netflix'')]"
    by (simp add: scenario_defs activity_defs engine_defs)
  have st: "dict_get [(''status'', VStr ''SUCCESS''), (''session_id'', VStr ''Netflix_123_1767607200.5''),
          (''screenshot_path'', VStr ''proofs/Netflix_2026-01-05T10:00:00.png''),
          (''timestamp'', VStr ''2026-01-05T10:00:01''), (''service_name'', VStr ''Netflix'')]
          ''status'' = VStr ''SUCCESS''"
    by (simp add: dict_get_def)
  have c: "capture_end scenario_A = Ran (body_with None)" "raised (body_with None) = None"
    by (simp_all add: scenario_A_def scenario_def body_with_def)
  from direct_success_completes [OF b st, where cenv = "body_with None"] b c show ?thesis
    by (simp add: run_scenario_A result_field_def dict_get_def)
qed

text \<open>
  C8 as stated fails when the begin activity returns \<open>SUCCESS\<close> and the proof capture
  fails inside its body: the instance is \<open>COMPLETED\<close> and the screenshot reference of the
  result is \<open>None\<close>.
\<close>

theorem direct_success_unproven_counterexample:
  "begin_outcome scenario_unproven request_netflix =
     Inr [(''status'', VStr ''SUCCESS''), (''session_id'', VStr ''Netflix_123_1767607200.5''),
          (''screenshot_path'', VStr ''proofs/Netflix_2026-01-05T10:00:00.png''),
          (''timestamp'', VStr ''2026-01-05T10:00:01''), (''service_name'', VStr ''Netflix'')]
   \<and> status (wf (fst (run scenario_unproven request_netflix init))) = ''COMPLETED''
   \<and> result_field (snd (run scenario_unproven request_netflix init)) ''screenshot_url'' = VNone
   \<and> snd (run scenario_unproven request_netflix init) =
       Inr [(''status'', VStr ''SUCCESS''), (''screenshot_url'', VNone), (''video_url'', VNone),
            (''savings_per_year'', VInt 180), (''cancelled_at'', VStr ''2026-01-05T10:00:03'')]"
  by (simp add: scenario_defs activity_defs engine_defs workflow_defs)

subsection \<open>Any code is accepted\<close>

text \<open>
  C9, as amended. \<open>inject_2fa_code\<close> never inspects the code: for a non-empty session
  handle and code it returns \<open>SUCCESS\<close> unless a statement of its body raises, and then
  \<open>FAILED\<close> with the text of the exception. In a run that enters the 2FA branch with a
  notification that ends and receives its codes during the wait, the last code signalled
  is the code injected, and the statuses and the result of the run are those of the run
  with any other non-empty code. When the injection runs without raising and the proof
  capture runs, the instance reaches \<open>COMPLETED\<close>; when a statement of the injection
  raises, it ends in \<open>FAILED\<close>; when the engine reports the injection failed, the run
  ends with \<open>ActivityError\<close> and the status stays \<open>VERIFYING_2FA\<close>.
\<close>

theorem any_code_is_accepted:
  assumes "begin_outcome w request = Inr result"
      and "dict_get result ''status'' = VStr ''2FA_REQUIRED''"
      and "subscript request ''user_id'' = Inr uid"
      and "notify_end w = Ran nenv"
      and "sig_begin w = []" and "sig_notify w = []"
      and "sig_wait w = codes @ [code]" and "code \<noteq> []"
  shows "(truthy (dict_get payload ''session_id'') \<and> truthy (dict_get payload ''code'')
          \<longrightarrow> inject_2fa_code env payload =
                (case raised env of
                   None \<Rightarrow> Inr [(''status'', VStr ''SUCCESS''),
                                 (''session_id'', dict_get payload ''session_id''),
                                 (''message'', VStr ''2FA code verified and cancellation continued'')]
                 | Some e \<Rightarrow> Inr [(''status'', VStr ''FAILED''),
                                   (''message'', VStr (''Failed to inject 2FA code: '' @ e))]))
         \<and> (\<exists>sid. sid \<noteq> []
               \<and> invoked (fst (run w request init)) ! 2 =
                    (''inject_2fa_code'', [(''session_id'', VStr sid), (''code'', VStr code)]))
         \<and> (code' \<noteq> [] \<longrightarrow>
               trace (fst (run (w\<lparr>sig_wait := codes' @ [code']\<rparr>) request init))
                 = trace (fst (run w request init))
               \<and> snd (run (w\<lparr>sig_wait := codes' @ [code']\<rparr>) request init)
                   = snd (run w request init))
         \<and> (inject_end w = Ran ienv \<and> raised ienv = None \<and> capture_end w = Ran cenv \<longrightarrow>
               status (wf (fst (run w request init))) = ''COMPLETED''
               \<and> result_field (snd (run w request init)) ''status'' = VStr ''SUCCESS''
               \<and> trace (fst (run w request init)) =
                   [''PENDING'', ''STARTING'', ''NAVIGATING'', ''AWAITING_2FA'', ''VERIFYING_2FA'',
                    ''CAPTURING_PROOF'', ''COMPLETED''])
         \<and> (inject_end w = Ran ienv \<and> raised ienv = Some e \<longrightarrow>
               status (wf (fst (run w request init))) = ''FAILED''
               \<and> snd (run w request init) =
                   Inr [(''status'', VStr ''FAILED''),
                        (''message'', VStr (''Failed to inject 2FA code: '' @ e))]
               \<and> trace (fst (run w request init)) =
                   [''PENDING'', ''STARTING'', ''NAVIGATING'', ''AWAITING_2FA'', ''VERIFYING_2FA'',
                    ''FAILED''])
         \<and> (inject_end w = Fault fault \<longrightarrow>
               status (wf (fst (run w request init))) = ''VERIFYING_2FA''
               \<and> snd (run w request init) = Inl (ActivityError fault)
               \<and> trace (fst (run w request init)) =
                   [''PENDING'', ''STARTING'', ''NAVIGATING'', ''AWAITING_2FA'', ''VERIFYING_2FA''])"
proof -
  have activity: "truthy (dict_get payload ''session_id'') \<and> truthy (dict_get payload ''code'')
          \<longrightarrow> inject_2fa_code env payload =
                (case raised env of
                   None \<Rightarrow> Inr [(''status'', VStr ''SUCCESS''),
                                 (''session_id'', dict_get payload ''session_id''),
                                 (''message'', VStr ''2FA code verified and cancellation continued'')]
                 | Some e \<Rightarrow> Inr [(''status'', VStr ''FAILED''),
                                   (''message'', VStr (''Failed to inject 2FA code: '' @ e))])"
    by (simp add: inject_2fa_code_def split: option.splits)
  from two_fa_result [OF assms(1,2)] obtain sid m sn where sid: "sid \<noteq> []"
    and result: "result = [(''status'', VStr ''2FA_REQUIRED''), (''session_id'', VStr sid),
                       (''message'', m), (''service_name'', sn)]"
    and sn: "subscript request ''service_name'' = Inr sn"
    by blast
  let ?s2 = "deliver (sig_notify w) (started ''send_push_notification''
                      [(''user_id'', uid),
                       (''title'', VStr (py_str sn @ '' needs verification'')),
                       (''body'', VStr ''Enter the code from your SMS/email to continue cancellation'')]
                      (set_status ''AWAITING_2FA'' (entered w request init)))"
  let ?s3 = "deliver (sig_wait w) ?s2"
  have none: "two_fa_code (wf ?s2) = None"
    using assms(5,6) by (simp add: init_def)
  have "wait_condition w ?s2 = Some ?s3"
    using wait_condition_arrives [OF none] assms(7) by simp
  then have run: "run w request init = step3 w request ?s3 result"
    using run_notified [OF assms(1,2,3) sn assms(4), of init] by simp
  have code: "two_fa_code (wf ?s3) = Some code"
    using assms(7) by simp
  have sub: "subscript result ''session_id'' = Inr (VStr sid)"
    by (simp add: result subscript_def)
  from step3_injects [OF sub, of w request ?s3] obtain extra
    where "invoked (fst (step3 w request ?s3 result)) =
           invoked ?s3 @ (''inject_2fa_code'',
                        [(''session_id'', VStr sid),
                         (''code'', code_val (two_fa_code (wf ?s3)))]) # extra"
    by blast
  then have "invoked (fst (run w request init)) ! 2 =
         (''inject_2fa_code'', [(''session_id'', VStr sid), (''code'', VStr code)])"
    unfolding run code by (simp add: nth_append code_val_def)
  with sid have injected: "\<exists>sid. sid \<noteq> []
               \<and> invoked (fst (run w request init)) ! 2 =
                    (''inject_2fa_code'', [(''session_id'', VStr sid), (''code'', VStr code)])"
    by blast
  have other: "code' \<noteq> [] \<longrightarrow>
               trace (fst (run (w\<lparr>sig_wait := codes' @ [code']\<rparr>) request init))
                 = trace (fst (run w request init))
               \<and> snd (run (w\<lparr>sig_wait := codes' @ [code']\<rparr>) request init)
                   = snd (run w request init)"
  proof
    assume c': "code' \<noteq> []"
    let ?w = "w\<lparr>sig_wait := codes' @ [code']\<rparr>"
    let ?s3' = "deliver (codes' @ [code']) ?s2"
    have "wait_condition ?w ?s2 = Some ?s3'"
      using wait_condition_arrives [of ?s2 ?w] none by simp
    then have run': "run ?w request init = step3 w request ?s3' result"
      using run_notified [of ?w request result uid sn nenv init] assms(1,2,3,4) sn by simp
    have code': "two_fa_code (wf ?s3') = Some code'" by simp
    have "trace ?s3' = trace ?s3" by simp
    from step3_same [OF this code' code c' assms(8), of w request result]
    show "trace (fst (run ?w request init)) = trace (fst (run w request init))
          \<and> snd (run ?w request init) = snd (run w request init)"
      by (simp add: run run')
  qed
  have rejected: "inject_end w = Ran ienv \<and> raised ienv = Some e \<longrightarrow>
               status (wf (fst (run w request init))) = ''FAILED''
               \<and> snd (run w request init) =
                   Inr [(''status'', VStr ''FAILED''),
                        (''message'', VStr (''Failed to inject 2FA code: '' @ e))]
               \<and> trace (fst (run w request init)) =
                   [''PENDING'', ''STARTING'', ''NAVIGATING'', ''AWAITING_2FA'', ''VERIFYING_2FA'',
                    ''FAILED'']"
    unfolding run
    by (simp add: step3_def step4_def result subscript_def code_val_def invoke_def
          attempt_outcome_def inject_2fa_code_def Let_def init_def)
  have given_up: "inject_end w = Fault fault \<longrightarrow>
               status (wf (fst (run w request init))) = ''VERIFYING_2FA''
               \<and> snd (run w request init) = Inl (ActivityError fault)
               \<and> trace (fst (run w request init)) =
                   [''PENDING'', ''STARTING'', ''NAVIGATING'', ''AWAITING_2FA'', ''VERIFYING_2FA'']"
    unfolding run
    by (simp add: step3_def result subscript_def code_val_def invoke_def
          attempt_outcome_def Let_def init_def)
  have completes: "inject_end w = Ran ienv \<and> raised ienv = None \<and> capture_end w = Ran cenv \<longrightarrow>
               status (wf (fst (run w request init))) = ''COMPLETED''
               \<and> result_field (snd (run w request init)) ''status'' = VStr ''SUCCESS''
               \<and> trace (fst (run w request init)) =
                   [''PENDING'', ''STARTING'', ''NAVIGATING'', ''AWAITING_2FA'', ''VERIFYING_2FA'',
                    ''CAPTURING_PROOF'', ''COMPLETED'']"
  proof
    assume env: "inject_end w = Ran ienv \<and> raised ienv = None \<and> capture_end w = Ran cenv"
    have inject: "inject_2fa_code ienv [(''session_id'', VStr sid), (''code'', VStr code)] =
                    Inr [(''status'', VStr ''SUCCESS''), (''session_id'', VStr sid),
                         (''message'', VStr ''2FA code verified and cancellation continued'')]"
      using sid assms(8) env by (simp add: inject_2fa_code_def dict_get_def)
    have "step3 w request ?s3 result =
          step4 w request
            (deliver (sig_inject w)
               (started ''inject_2fa_code'' [(''session_id'', VStr sid), (''code'', VStr code)]
                  (set_status ''VERIFYING_2FA'' ?s3)))
            [(''status'', VStr ''SUCCESS''), (''session_id'', VStr sid),
             (''message'', VStr ''2FA code verified and cancellation continued'')]"
      using code inject env
      by (simp add: step3_def result subscript_def code_val_def invoke_def attempt_outcome_def Let_def)
    with run have "run w request init =
          step4 w request
            (deliver (sig_inject w)
               (started ''inject_2fa_code'' [(''session_id'', VStr sid), (''code'', VStr code)]
                  (set_status ''VERIFYING_2FA'' ?s3)))
            [(''status'', VStr ''SUCCESS''), (''session_id'', VStr sid),
             (''message'', VStr ''2FA code verified and cancellation continued'')]"
      by simp
    then show "status (wf (fst (run w request init))) = ''COMPLETED''
               \<and> result_field (snd (run w request init)) ''status'' = VStr ''SUCCESS''
               \<and> trace (fst (run w request init)) =
                   [''PENDING'', ''STARTING'', ''NAVIGATING'', ''AWAITING_2FA'', ''VERIFYING_2FA'',
                    ''CAPTURING_PROOF'', ''COMPLETED'']"
      using sid env
      by (simp add: step4_def subscript_def invoke_def attempt_outcome_def capture_proof_def
            dict_get_def result_field_def Let_def init_def split: option.splits)
  qed
  from activity injected other completes rejected given_up show ?thesis by blast
qed

theorem any_code_is_accepted_witness:
  "sig_wait scenario_B = [] @ [''482913'']
   \<and> inject_2fa_code (body_with None)
         [(''session_id'', VStr ''Netflix_123_1767607200.5''), (''code'', VStr ''000000'')]
       = Inr [(''status'', VStr ''SUCCESS''), (''session_id'', VStr ''Netflix_123_1767607200.5''),
              (''message'', VStr ''2FA code verified and cancellation continued'')]
   \<and> invoked (fst (run scenario_B request_netflix init)) ! 2
       = (''inject_2fa_code'', [(''session_id'', VStr ''Netflix_123_1767607200.5''),
                                (''code'', VStr ''482913'')])
   \<and> trace (fst (run (scenario_B\<lparr>sig_wait := [''111111''] @ [''000000'']\<rparr>) request_netflix init))
       = trace (fst (run scenario_B request_netflix init))
   \<and> snd (run (scenario_B\<lparr>sig_wait := [''111111''] @ [''000000'']\<rparr>) request_netflix init)
       = snd (run scenario_B request_netflix init)
   \<and> inject_end scenario_B = Ran (body_with None) \<and> capture_end scenario_B = Ran (body_with None)
   \<and> status (wf (fst (run scenario_B request_netflix init))) = ''COMPLETED''
   \<and> inject_end scenario_rejected = Ran (body_with (Some ''browser session lost''))
   \<and> sig_wait scenario_rejected = [] @ [''482913'']
   \<and> status (wf (fst (run scenario_rejected request_netflix init))) = ''FAILED''
   \<and> snd (run scenario_rejected request_netflix init)
       = Inr [(''status'', VStr ''FAILED''),
              (''message'', VStr ''Failed to inject 2FA code: browser session lost'')]"
proof -
  let ?result = "[(''status'', VStr ''2FA_REQUIRED''), (''session_id'', VStr ''Netflix_123_1767607200.5''),
          (''message'', VStr ''User needs to provide verification code''),
          (''service_name'', VStr ''Netflix'')]"
  let ?payload = "[(''session_id'', VStr ''Netflix_123_1767607200.5''), (''code'', VStr ''000000'')]"
  have st: "dict_get ?result ''status'' = VStr ''2FA_REQUIRED''"
    by (simp add: dict_get_def)
  have uid: "subscript request_netflix ''user_id'' = Inr (VStr ''123'')"
    by (simp add: request_netflix_def subscript_def)
  have b1: "begin_outcome scenario_B request_netflix = Inr ?result"
    and b2: "begin_outcome scenario_rejected request_netflix = Inr ?result"
    by (simp_all add: scenario_rejected_def scenario_B_def two_fa_begin)
  have w1: "notify_end scenario_B = Ran (body_with None)"
    "sig_begin scenario_B = []" "sig_notify scenario_B = []"
    "sig_wait scenario_B = [] @ [''482913'']"
    "inject_end scenario_B = Ran (body_with None)" "capture_end scenario_B = Ran (body_with None)"
    by (simp_all add: scenario_B_def scenario_def)
  have w2: "notify_end scenario_rejected = Ran (body_with None)"
    "sig_begin scenario_rejected = []" "sig_notify scenario_rejected = []"
    "sig_wait scenario_rejected = [] @ [''482913'']"
    "inject_end scenario_rejected = Ran (body_with (Some ''browser session lost''))"
    by (simp_all add: scenario_rejected_def scenario_B_def scenario_def)
  have r: "raised (body_with None) = None"
    "raised (body_with (Some ''browser session lost'')) = Some ''browser session lost''"
    by (simp_all add: body_with_def)
  have ne: "''482913'' \<noteq> []" "''000000'' \<noteq> []" by simp_all
  have p: "truthy (dict_get ?payload ''session_id'') \<and> truthy (dict_get ?payload ''code'')"
    "dict_get ?payload ''session_id'' = VStr ''Netflix_123_1767607200.5''"
    by (simp_all add: dict_get_def)
  note T1 = any_code_is_accepted [OF b1 st uid w1(1,2,3,4) ne(1),
              where payload = ?payload and env = "body_with None" and code' = "''000000''"
                and codes' = "[''111111'']" and ienv = "body_with None"
                and cenv = "body_with None" and e = "''''" and fault = "''''"]
  note T2 = any_code_is_accepted [OF b2 st uid w2(1,2,3,4) ne(1),
              where payload = ?payload and env = "body_with None" and code' = "''000000''"
                and codes' = "[''111111'']" and ienv = "body_with (Some ''browser session lost'')"
                and cenv = "body_with None" and e = "''browser session lost''" and fault = "''''"]
  from T1 p r(1) have activity: "inject_2fa_code (body_with None) ?payload
       = Inr [(''status'', VStr ''SUCCESS''), (''session_id'', VStr ''Netflix_123_1767607200.5''),
              (''message'', VStr ''2FA code verified and cancellation continued'')]"
    by simp
  from T1 have "\<exists>sid. sid \<noteq> []
               \<and> invoked (fst (run scenario_B request_netflix init)) ! 2 =
                    (''inject_2fa_code'', [(''session_id'', VStr sid), (''code'', VStr ''482913'')])"
    by blast
  then have injected: "invoked (fst (run scenario_B request_netflix init)) ! 2
       = (''inject_2fa_code'', [(''session_id'', VStr ''Netflix_123_1767607200.5''),
                                (''code'', VStr ''482913'')])"
    by (simp add: run_scenario_B)
  from T1 ne(2) have other:
    "trace (fst (run (scenario_B\<lparr>sig_wait := [''111111''] @ [''000000'']\<rparr>) request_netflix init))
       = trace (fst (run scenario_B request_netflix init))
     \<and> snd (run (scenario_B\<lparr>sig_wait := [''111111''] @ [''000000'']\<rparr>) request_netflix init)
       = snd (run scenario_B request_netflix init)"
    by blast
  from T1 w1(5,6) r(1) have completed:
    "status (wf (fst (run scenario_B request_netflix init))) = ''COMPLETED''"
    by blast
  from T2 w2(5) r(2) have failed:
    "status (wf (fst (run scenario_rejected request_netflix init))) = ''FAILED''
     \<and> snd (run scenario_rejected request_netflix init)
       = Inr [(''status'', VStr ''FAILED''),
              (''message'', VStr (''Failed to inject 2FA code: '' @ ''browser session lost''))]"
    by blast
  from w1(4,5,6) w2(4,5) activity injected other completed failed show ?thesis by simp
qed

text \<open>
  C9 as stated fails when a statement inside \<open>inject_2fa_code\<close> raises: session handle
  and code are non-empty, the activity returns \<open>FAILED\<close>, and the instance that received
  the code ends in \<open>FAILED\<close>.
\<close>

theorem injection_failure_counterexample:
  "truthy (VStr ''Netflix_123_1767607200.5'') \<and> truthy (VStr ''482913'')
   \<and> inject_2fa_code (body_with (Some ''browser session lost''))
         [(''session_id'', VStr ''Netflix_123_1767607200.5''), (''code'', VStr ''482913'')]
       = Inr [(''status'', VStr ''FAILED''),
              (''message'', VStr ''Failed to inject 2FA code: browser session lost'')]
   \<and> sig_wait scenario_rejected = [''482913'']
   \<and> invoked (fst (run scenario_rejected request_netflix init)) ! 2
       = (''inject_2fa_code'', [(''session_id'', VStr ''Netflix_123_1767607200.5''),
                                (''code'', VStr ''482913'')])
   \<and> status (wf (fst (run scenario_rejected request_netflix init))) = ''FAILED''
   \<and> trace (fst (run scenario_rejected request_netflix init))
       = [''PENDING'', ''STARTING'', ''NAVIGATING'', ''AWAITING_2FA'', ''VERIFYING_2FA'', ''FAILED'']
   \<and> snd (run scenario_rejected request_netflix init)
       = Inr [(''status'', VStr ''FAILED''),
              (''message'', VStr ''Failed to inject 2FA code: browser session lost'')]"
  by (simp add: scenario_defs activity_defs engine_defs workflow_defs)

subsection \<open>The begin activity never raises\<close>

text \<open>
  C10. \<open>start_cancellation\<close> never raises: in every environment and for every request
  it returns a dictionary, so an attempt that runs it is never a failed attempt and the
  engine does not retry it. An exception leaving \<open>cancel_subscription\<close> becomes the returned
  dictionary with status \<open>FAILED\<close> and message \<open>Exception occurred: ...\<close>; the agent itself
  turns an exception of \<open>agent.run\<close> whose text holds \<open>2FA\<close>, or \<open>verification\<close> in any case,
  into a \<open>2FA_REQUIRED\<close> result.
\<close>

theorem start_cancellation_never_raises:
  "(\<exists>d. start_cancellation env request = Inr d
        \<and> attempt_outcome (Ran env) (\<lambda>a. start_cancellation a request) = Inr d
        \<and> (envs 1 = Ran env \<longrightarrow>
             execute_activity p envs (\<lambda>a. start_cancellation a request) = (Inr d, [])))
   \<and> (truthy (dict_get request ''service_name'') \<and> truthy (dict_get request ''login_url'')
      \<and> truthy (dict_get request ''email'') \<and> truthy (dict_get request ''password'')
      \<and> cancel_subscription (agent env) (dict_get request ''service_name'')
           (dict_get request ''login_url'') (dict_get request ''email'')
           (dict_get request ''password'') (dict_get_default request ''use_steel'' (VBool False))
         = Inl e
      \<longrightarrow> start_cancellation env request =
            Inr [(''status'', VStr ''FAILED''),
                 (''message'', VStr (''Exception occurred: '' @ str_error e)),
                 (''service_name'', dict_get request ''service_name'')])
   \<and> (setup_exc a = None \<and> close_exc a = None \<and> run_exc a = Some m
      \<and> (contains m ''2FA'' \<or> contains (lower m) ''verification'')
      \<longrightarrow> cancel_subscription a sn lu em pw us =
            Inr [(''status'', VStr ''2FA_REQUIRED''), (''service'', sn),
                 (''message'', VStr ''User needs to provide verification code'')])"
proof (intro conjI)
  obtain d where d: "start_cancellation env request = Inr d"
    using start_cancellation_total by blast
  have out: "attempt_outcome (Ran env) (\<lambda>a. start_cancellation a request) = Inr d"
    by (simp add: attempt_outcome_def d)
  have "envs 1 = Ran env \<longrightarrow>
          execute_activity p envs (\<lambda>a. start_cancellation a request) = (Inr d, [])"
    using out by (simp add: execute_activity_def retrying_first)
  with d out
  show "\<exists>d. start_cancellation env request = Inr d
          \<and> attempt_outcome (Ran env) (\<lambda>a. start_cancellation a request) = Inr d
          \<and> (envs 1 = Ran env \<longrightarrow>
               execute_activity p envs (\<lambda>a. start_cancellation a request) = (Inr d, []))"
    by blast
next
  show "truthy (dict_get request ''service_name'') \<and> truthy (dict_get request ''login_url'')
      \<and> truthy (dict_get request ''email'') \<and> truthy (dict_get request ''password'')
      \<and> cancel_subscription (agent env) (dict_get request ''service_name'')
           (dict_get request ''login_url'') (dict_get request ''email'')
           (dict_get request ''password'') (dict_get_default request ''use_steel'' (VBool False))
         = Inl e
      \<longrightarrow> start_cancellation env request =
            Inr [(''status'', VStr ''FAILED''),
                 (''message'', VStr (''Exception occurred: '' @ str_error e)),
                 (''service_name'', dict_get request ''service_name'')]"
    by (simp add: start_cancellation_def start_cancellation_body_def)
next
  show "setup_exc a = None \<and> close_exc a = None \<and> run_exc a = Some m
      \<and> (contains m ''2FA'' \<or> contains (lower m) ''verification'')
      \<longrightarrow> cancel_subscription a sn lu em pw us =
            Inr [(''status'', VStr ''2FA_REQUIRED''), (''service'', sn),
                 (''message'', VStr ''User needs to provide verification code'')]"
    using cancel_subscription_2fa by blast
qed

theorem start_cancellation_never_raises_witness:
  "cancel_subscription (agent agent_crashing) (VStr ''Netflix'')
      (VStr ''https://netflix.com/login'') (VStr ''user@example.com'') (VStr ''hunter2'')
      (VBool False) = Inl (Exception ''browser lost'')
   \<and> start_cancellation agent_crashing request_netflix =
       Inr [(''status'', VStr ''FAILED''),
            (''message'', VStr ''Exception occurred: browser lost''),
            (''service_name'', VStr ''Netflix'')]
   \<and> execute_activity \<lparr>initial_interval = 1, maximum_interval = 300, maximum_attempts = 3\<rparr>
        (\<lambda>k. Ran agent_crashing) (\<lambda>a. start_cancellation a request_netflix) =
       (Inr [(''status'', VStr ''FAILED''),
             (''message'', VStr ''Exception occurred: browser lost''),
             (''service_name'', VStr ''Netflix'')], [])
   \<and> cancel_subscription (agent (agent_with (Some ''Please enter the Verification code'')))
        (VStr ''Netflix'') (VStr ''https://netflix.com/login'') (VStr ''user@example.com'')
        (VStr ''hunter2'') (VBool False) =
       Inr [(''status'', VStr ''2FA_REQUIRED''), (''service'', VStr ''Netflix''),
            (''message'', VStr ''User needs to provide verification code'')]"
proof -
  let ?p = "\<lparr>initial_interval = 1, maximum_interval = 300, maximum_attempts = 3\<rparr>"
  note T = start_cancellation_never_raises
             [of agent_crashing request_netflix "\<lambda>k. Ran agent_crashing" ?p
                 "Exception ''browser lost''"
                 "agent (agent_with (Some ''Please enter the Verification code''))"
                 "''Please enter the Verification code''"
                 "VStr ''Netflix''" "VStr ''https://netflix.com/login''"
                 "VStr ''user@example.com''" "VStr ''hunter2''" "VBool False"]
  have crash: "cancel_subscription (agent agent_crashing) (VStr ''Netflix'')
      (VStr ''https://netflix.com/login'') (VStr ''user@example.com'') (VStr ''hunter2'')
      (VBool False) = Inl (Exception ''browser lost'')"
    by (simp add: agent_crashing_def agent_with_def cancel_subscription_def)
  have failed: "start_cancellation agent_crashing request_netflix =
       Inr [(''status'', VStr ''FAILED''),
            (''message'', VStr ''Exception occurred: browser lost''),
            (''service_name'', VStr ''Netflix'')]"
    using conjunct1 [OF conjunct2 [OF T]] crash
    by (simp add: request_netflix_def dict_get_def dict_get_default_def)
  have once: "execute_activity ?p (\<lambda>k. Ran agent_crashing)
                (\<lambda>a. start_cancellation a request_netflix) =
       (Inr [(''status'', VStr ''FAILED''),
             (''message'', VStr ''Exception occurred: browser lost''),
             (''service_name'', VStr ''Netflix'')], [])"
    using conjunct1 [OF T] failed by auto
  have asked: "cancel_subscription (agent (agent_with (Some ''Please enter the Verification code'')))
        (VStr ''Netflix'') (VStr ''https://netflix.com/login'') (VStr ''user@example.com'')
        (VStr ''hunter2'') (VBool False) =
       Inr [(''status'', VStr ''2FA_REQUIRED''), (''service'', VStr ''Netflix''),
            (''message'', VStr ''User needs to provide verification code'')]"
    using conjunct2 [OF conjunct2 [OF T]]
    by (simp add: agent_with_def lower_def lower_char_def char_of_eq_iff)
  from crash failed once asked show ?thesis by simp
qed

end
